theory Spec2Isabelle
  imports Complex_Main "HOL-Library.Word" "HOL-Library.Char_ord" "HOL-Library.List_Lexorder"
begin

unbundle bit_operations_syntax

section \<open>Python numbers\<close>

text \<open>
  The two modules under study, \<^verbatim>\<open>etl/cost_aware_client.py\<close> and
  \<^verbatim>\<open>cache/query_cache.py\<close>, compute with Python \<^verbatim>\<open>int\<close> (unbounded, modelled
  by \<^typ>\<open>int\<close>) and Python \<^verbatim>\<open>float\<close> (IEEE 754 binary64, round to nearest, ties to even).
  A float is modelled by its exact rational value; the two infinities and the negative
  zero are separate constructors. No operation of the two modules can produce a NaN.
\<close>

datatype pyfloat = Finite rat | NegZero | PosInf | NegInf

definition pow2 :: "int \<Rightarrow> rat" where
  "pow2 e = (if 0 \<le> e then 2 ^ nat e else 1 / 2 ^ nat (- e))"

text \<open>\<^verbatim>\<open>int.bit_length()\<close>: the number of binary digits of a positive int.\<close>

function bit_length :: "int \<Rightarrow> int" where
  "bit_length n = (if n \<le> 0 then 0 else 1 + bit_length (n div 2))"
  by pat_completeness auto
termination
  by (relation "measure nat") auto

declare bit_length.simps [simp del]

text \<open>
  The binary exponent of a positive rational \<open>x\<close>: the \<open>e\<close> with \<open>2^e \<le> x < 2^(e+1)\<close>.
  For \<open>x = p / q\<close> it is one of the two candidates given by the bit lengths of \<open>p\<close> and \<open>q\<close>.
\<close>

definition floor_log2 :: "rat \<Rightarrow> int" where
  "floor_log2 x =
     (let (p, q) = quotient_of x;
          d = bit_length p - bit_length q
      in if pow2 d \<le> x then d else d - 1)"

definition round_half_even :: "rat \<Rightarrow> int" where
  "round_half_even y =
     (let f = \<lfloor>y\<rfloor>; d = y - of_int f
      in if d < 1 / 2 then f
         else if 1 / 2 < d then f + 1
         else if even f then f else f + 1)"

text \<open>
  Rounding an exact result to binary64: 53 significant bits, the quantum never below
  \<open>2^-1074\<close> (gradual underflow), overflow to an infinity from \<open>2^1024\<close> on.
  The rounded value is \<open>m * 2^q\<close>; it reaches \<open>2^1024\<close> exactly when the bit length
  of \<open>m\<close> plus \<open>q\<close> exceeds 1024 (lemma \<open>overflow_test\<close> below).
\<close>

definition round_float :: "rat \<Rightarrow> pyfloat" where
  "round_float x =
     (if x = 0 then Finite 0
      else
        let q = max (floor_log2 \<bar>x\<bar> - 52) (- 1074);
            m = round_half_even (x / pow2 q);
            r = of_int m * pow2 q
        in if m = 0 then (if x < 0 then NegZero else Finite 0)
           else if 1024 < bit_length \<bar>m\<bar> + q then (if x < 0 then NegInf else PosInf)
           else Finite r)"

text \<open>Float subtraction of two finite floats given by their values.\<close>

definition float_sub :: "rat \<Rightarrow> rat \<Rightarrow> pyfloat" where
  "float_sub a b = round_float (a - b)"

text \<open>
  Float division and multiplication by a positive finite constant \<open>c\<close> (the sources only
  divide by the literals 3600 and 1024, and multiply by 6.25).
\<close>

definition float_div_const :: "pyfloat \<Rightarrow> rat \<Rightarrow> pyfloat" where
  "float_div_const x c = (case x of Finite a \<Rightarrow> round_float (a / c) | _ \<Rightarrow> x)"

definition float_mul_const :: "pyfloat \<Rightarrow> rat \<Rightarrow> pyfloat" where
  "float_mul_const x c = (case x of Finite a \<Rightarrow> round_float (a * c) | _ \<Rightarrow> x)"

text \<open>The comparison \<^verbatim>\<open>x < n\<close> of a float with an int, which Python decides exactly.\<close>

definition float_lt_int :: "pyfloat \<Rightarrow> int \<Rightarrow> bool" where
  "float_lt_int x n =
     (case x of Finite a \<Rightarrow> a < of_int n | NegZero \<Rightarrow> 0 < n | PosInf \<Rightarrow> False | NegInf \<Rightarrow> True)"

subsection \<open>Exceptions\<close>

text \<open>
  \<^verbatim>\<open>QueryCostError\<close> is the class defined in \<^verbatim>\<open>cost_aware_client.py\<close>; \<^verbatim>\<open>TypeError\<close>,
  \<^verbatim>\<open>OverflowError\<close> and \<^verbatim>\<open>ZeroDivisionError\<close> are raised by the modelled code or by
  the arithmetic it uses. Every exception coming from a collaborator (the BigQuery
  client, pandas, the file system) is a \<open>GoogleCloudError\<close> or an \<open>OtherError\<close> with
  its class name; each carries the text that \<^verbatim>\<open>str(e)\<close> gives. Only subclasses of
  \<^verbatim>\<open>Exception\<close> are modelled, which is what the \<^verbatim>\<open>except\<close> clauses of the two
  modules catch.
\<close>

datatype external_error = GoogleCloudError string | OtherError string string

datatype exn =
    QueryCostError string
  | TypeError string
  | OverflowError string
  | ZeroDivisionError string
  | External external_error

fun exn_str :: "exn \<Rightarrow> string" where
  "exn_str (QueryCostError m) = m"
| "exn_str (TypeError m) = m"
| "exn_str (OverflowError m) = m"
| "exn_str (ZeroDivisionError m) = m"
| "exn_str (External (GoogleCloudError m)) = m"
| "exn_str (External (OtherError c m)) = m"

text \<open>
  True division \<^verbatim>\<open>a / b\<close> of two ints: the correctly rounded quotient, an
  \<^verbatim>\<open>OverflowError\<close> when it is too large for a float.
\<close>

definition int_true_div :: "int \<Rightarrow> int \<Rightarrow> exn + pyfloat" where
  "int_true_div a b =
     (if b = 0 then Inl (ZeroDivisionError ''division by zero'')
      else if a = 0 then Inr (if b < 0 then NegZero else Finite 0)
      else case round_float (of_int a / of_int b) of
             PosInf \<Rightarrow> Inl (OverflowError ''integer division result too large for a float'')
           | NegInf \<Rightarrow> Inl (OverflowError ''integer division result too large for a float'')
           | r \<Rightarrow> Inr r)"

subsection \<open>Formatting numbers\<close>

definition digit_char :: "nat \<Rightarrow> char" where
  "digit_char d = char_of (48 + d)"

text \<open>The decimal digits of a non-negative int.\<close>

function digits :: "int \<Rightarrow> string" where
  "digits n = (if n < 10 then [digit_char (nat n)] else digits (n div 10) @ [digit_char (nat (n mod 10))])"
  by pat_completeness auto
termination
  by (relation "measure nat") auto

declare digits.simps [simp del]

text \<open>\<^verbatim>\<open>str(n)\<close> of an int.\<close>

definition str_int :: "int \<Rightarrow> string" where
  "str_int n = (if n < 0 then ''-'' @ digits (- n) else digits n)"

text \<open>Grouping a digit string in threes from the right, as the format \<^verbatim>\<open>{n:,}\<close> does.\<close>

fun group3 :: "string \<Rightarrow> string" where
  "group3 ds =
     (if length ds \<le> 3 then ds
      else group3 (take (length ds - 3) ds) @ '','' @ drop (length ds - 3) ds)"

declare group3.simps [simp del]

definition format_commas :: "int \<Rightarrow> string" where
  "format_commas n =
     (if n < 0 then ''-'' @ group3 (digits (- n)) else group3 (digits n))"

text \<open>Left padding with zeros to a width.\<close>

definition zero_pad :: "nat \<Rightarrow> string \<Rightarrow> string" where
  "zero_pad w s = replicate (w - length s) (CHR ''0'') @ s"

text \<open>
  The format \<^verbatim>\<open>{x:.kf}\<close> of a float: the exact value rounded half-even to \<open>k\<close>
  decimals, the sign kept also when the digits are all zero.
\<close>

definition format_fixed_abs :: "nat \<Rightarrow> rat \<Rightarrow> string" where
  "format_fixed_abs k a =
     (let s = round_half_even (a * 10 ^ k)
      in digits (s div 10 ^ k) @ (if k = 0 then [] else ''.'' @ zero_pad k (digits (s mod 10 ^ k))))"

definition format_fixed :: "nat \<Rightarrow> pyfloat \<Rightarrow> string" where
  "format_fixed k x =
     (case x of
        Finite a \<Rightarrow> (if a < 0 then ''-'' @ format_fixed_abs k (- a) else format_fixed_abs k a)
      | NegZero \<Rightarrow> ''-'' @ format_fixed_abs k 0
      | PosInf \<Rightarrow> ''inf''
      | NegInf \<Rightarrow> ''-inf'')"


section \<open>Shared data: tabular results, values, logging, configuration\<close>

text \<open>
  The values that occur as query parameters and as job-configuration properties:
  \<^verbatim>\<open>None\<close>, booleans, ints and strings. A Python \<^verbatim>\<open>str\<close> is modelled by a
  \<^typ>\<open>string\<close> whose characters are the code points below 256.
\<close>

datatype pyval = VNone | VBool bool | VInt int | VStr string

text \<open>
  A pandas \<^verbatim>\<open>DataFrame\<close>: the length of its index, the labels of its index and its
  named columns. The labels are \<open>None\<close> for the default index, the \<^verbatim>\<open>RangeIndex\<close>
  that counts the rows from 0, and \<open>Some\<close> of the list of labels for any other index.
  \<^verbatim>\<open>len(df)\<close> is the number of rows, \<^verbatim>\<open>df.empty\<close> holds when either axis has
  length 0, and \<^verbatim>\<open>pd.DataFrame()\<close> has neither rows nor columns.
\<close>

record dataframe =
  n_rows :: nat
  index_labels :: "pyval list option"
  columns :: "(string \<times> pyval list) list"

definition df_len :: "dataframe \<Rightarrow> nat" where
  "df_len df = n_rows df"

definition df_empty :: "dataframe \<Rightarrow> bool" where
  "df_empty df = (n_rows df = 0 \<or> columns df = [])"

definition pd_DataFrame :: dataframe where
  "pd_DataFrame = \<lparr>n_rows = 0, index_labels = None, columns = []\<rparr>"

text \<open>
  The frame with its index replaced by the default one
  (\<^verbatim>\<open>df.reset_index(drop=True)\<close>): what is left of a frame in a file written with
  \<^verbatim>\<open>index=False\<close>.
\<close>

definition reset_index :: "dataframe \<Rightarrow> dataframe" where
  "reset_index df = df\<lparr>index_labels := None\<rparr>"

text \<open>Each call of a \<^verbatim>\<open>logger\<close> method appends one record: the level and the message.\<close>

datatype log_level = DEBUG | INFO | WARNING | ERROR

type_synonym log_record = "log_level \<times> string"

text \<open>The fields of \<^verbatim>\<open>PipelineConfig\<close> that the two modules read.\<close>

record pipeline_config =
  PROJECT_ID :: string
  MAX_BYTES_BILLED :: int
  LOCAL_CACHE_DIR :: string
  CACHE_TTL_HOURS :: int

section \<open>The cost-aware client (\<^verbatim>\<open>etl/cost_aware_client.py\<close>)\<close>

definition COST_PER_TIB_USD :: rat where
  "COST_PER_TIB_USD = 25 / 4"

definition BYTES_PER_TIB :: int where
  "BYTES_PER_TIB = 1024 ^ 4"

text \<open>
  A \<^verbatim>\<open>QueryJobConfig\<close> is the list of the properties set on it. The job that
  \<^verbatim>\<open>client.query\<close> returns gives the two byte counts (each possibly \<^verbatim>\<open>None\<close>) and
  the outcome of \<^verbatim>\<open>to_dataframe()\<close>.
\<close>

type_synonym job_config = "(string \<times> pyval) list"

definition QueryJobConfig :: "bool \<Rightarrow> bool \<Rightarrow> int \<Rightarrow> job_config" where
  "QueryJobConfig dry_run use_query_cache maximum_bytes_billed =
     [(''dry_run'', VBool dry_run),
      (''use_query_cache'', VBool use_query_cache),
      (''maximum_bytes_billed'', VInt maximum_bytes_billed)]"

record query_job =
  total_bytes_processed :: "int option"
  total_bytes_billed :: "int option"
  to_dataframe :: "external_error + dataframe"

text \<open>
  The BigQuery library is a collaborator: \<open>client_query\<close> answers a call from the calls
  made before it, the query text and the job configuration, with a job or an exception of
  its own; \<open>job_config_hasattr\<close> is \<^verbatim>\<open>hasattr\<close> on a \<^verbatim>\<open>QueryJobConfig\<close>.
\<close>

record bigquery =
  client_query :: "(string \<times> job_config) list \<Rightarrow> string \<Rightarrow> job_config \<Rightarrow> external_error + query_job"
  job_config_hasattr :: "string \<Rightarrow> bool"

text \<open>The state that the client threads: the calls of \<^verbatim>\<open>client.query\<close> so far, and the log.\<close>

record client_state =
  query_calls :: "(string \<times> job_config) list"
  client_log :: "log_record list"

definition log_client :: "log_level \<Rightarrow> string \<Rightarrow> client_state \<Rightarrow> client_state" where
  "log_client lvl msg st = st\<lparr>client_log := client_log st @ [(lvl, msg)]\<rparr>"

text \<open>\<^verbatim>\<open>x or 0\<close> for a byte count that may be \<^verbatim>\<open>None\<close>.\<close>

definition or_zero :: "int option \<Rightarrow> int" where
  "or_zero x = (case x of None \<Rightarrow> 0 | Some n \<Rightarrow> if n = 0 then 0 else n)"

text \<open>The expression \<^verbatim>\<open>(bytes / self.BYTES_PER_TIB) * self.COST_PER_TIB_USD\<close>.\<close>

definition cost_usd :: "int \<Rightarrow> exn + pyfloat" where
  "cost_usd bytes =
     (case int_true_div bytes BYTES_PER_TIB of
        Inl e \<Rightarrow> Inl e
      | Inr tib \<Rightarrow> Inr (float_mul_const tib COST_PER_TIB_USD))"

text \<open>Calling \<^verbatim>\<open>self.client.query(query, job_config=job_config)\<close>.\<close>

definition call_query ::
  "bigquery \<Rightarrow> string \<Rightarrow> job_config \<Rightarrow> client_state \<Rightarrow> (external_error + query_job) \<times> client_state" where
  "call_query bq query job_config st =
     (client_query bq (query_calls st) query job_config,
      st\<lparr>query_calls := query_calls st @ [(query, job_config)]\<rparr>)"

definition estimate_query_cost ::
  "pipeline_config \<Rightarrow> bigquery \<Rightarrow> string \<Rightarrow> client_state \<Rightarrow> (exn + int \<times> pyfloat) \<times> client_state" where
  "estimate_query_cost config bq query st =
     (let job_config = QueryJobConfig True False (MAX_BYTES_BILLED config);
          (answer, st1) = call_query bq query job_config st
      in case answer of
           Inl (GoogleCloudError m) \<Rightarrow>
             (Inl (External (GoogleCloudError m)), log_client ERROR (''Dry run failed: '' @ m) st1)
         | Inl (OtherError c m) \<Rightarrow> (Inl (External (OtherError c m)), st1)
         | Inr job \<Rightarrow>
             let bytes_estimate = or_zero (total_bytes_processed job)
             in (case cost_usd bytes_estimate of
                   Inl e \<Rightarrow> (Inl e, st1)
                 | Inr cost_estimate \<Rightarrow>
                     (Inr (bytes_estimate, cost_estimate),
                      log_client INFO
                        (''Query cost estimate: '' @ format_commas bytes_estimate @ '' bytes '' @
                         ''($'' @ format_fixed 4 cost_estimate @ '' USD)'') st1)))"


text \<open>\<^verbatim>\<open>setattr(job_config, key, value)\<close>: the property is set, replacing an earlier value.\<close>

fun setattr :: "job_config \<Rightarrow> string \<Rightarrow> pyval \<Rightarrow> job_config" where
  "setattr [] key v = [(key, v)]"
| "setattr ((k, w) # rest) key v = (if k = key then (k, v) # rest else (k, w) # setattr rest key v)"

text \<open>The loop over \<^verbatim>\<open>job_config_customizations.items()\<close>.\<close>

fun apply_customizations ::
  "bigquery \<Rightarrow> (string \<times> pyval) list \<Rightarrow> job_config \<Rightarrow> client_state \<Rightarrow> job_config \<times> client_state" where
  "apply_customizations bq [] job_config st = (job_config, st)"
| "apply_customizations bq ((key, v) # rest) job_config st =
     (if job_config_hasattr bq key
      then apply_customizations bq rest (setattr job_config key v) st
      else apply_customizations bq rest job_config
             (log_client WARNING (''Unknown job config parameter: '' @ key) st))"

text \<open>The two \<^verbatim>\<open>except\<close> clauses around the execution: log, then re-raise.\<close>

definition execution_failed :: "exn \<Rightarrow> client_state \<Rightarrow> (exn + dataframe) \<times> client_state" where
  "execution_failed e st =
     (Inl e,
      case e of
        External (GoogleCloudError m) \<Rightarrow> log_client ERROR (''Query execution failed: '' @ m) st
      | _ \<Rightarrow> log_client ERROR (''Unexpected error during query execution: '' @ exn_str e) st)"


section \<open>The query cache (\<^verbatim>\<open>cache/query_cache.py\<close>)\<close>

subsection \<open>Strings\<close>

text \<open>
  \<^verbatim>\<open>str.strip()\<close> removes the leading and trailing whitespace; among the code points
  below 256 the whitespace characters are 9 to 13, 28 to 32, 133 and 160.
\<close>

definition is_space :: "char \<Rightarrow> bool" where
  "is_space c =
     (let n = (of_char c :: nat)
      in (9 \<le> n \<and> n \<le> 13) \<or> (28 \<le> n \<and> n \<le> 32) \<or> n = 133 \<or> n = 160)"

definition strip :: "string \<Rightarrow> string" where
  "strip s = rev (dropWhile is_space (rev (dropWhile is_space s)))"

text \<open>
  \<^verbatim>\<open>repr\<close> of a string: single quotes, unless the string has a single quote and no
  double quote; the quote and the backslash are escaped, tab, newline and carriage return
  have their letters, every other non-printable character is written \<^verbatim>\<open>\xhh\<close>.
  Below 256 the printable characters are 32 to 126 and 161 to 255 except 173.
\<close>

definition hex_digit :: "nat \<Rightarrow> char" where
  "hex_digit d = (if d < 10 then char_of (48 + d) else char_of (87 + d))"

definition is_printable :: "char \<Rightarrow> bool" where
  "is_printable c =
     (let n = (of_char c :: nat)
      in (32 \<le> n \<and> n \<le> 126) \<or> (161 \<le> n \<and> n \<noteq> 173))"

definition repr_char :: "char \<Rightarrow> char \<Rightarrow> string" where
  "repr_char quote c =
     (if c = quote \<or> c = CHR 0x5C then [CHR 0x5C, c]
      else if c = CHR 0x09 then [CHR 0x5C, CHR ''t'']
      else if c = CHR 0x0A then [CHR 0x5C, CHR ''n'']
      else if c = CHR 0x0D then [CHR 0x5C, CHR ''r'']
      else if \<not> is_printable c
        then [CHR 0x5C, CHR ''x'', hex_digit (of_char c div 16), hex_digit (of_char c mod 16)]
      else [c])"

definition repr_str :: "string \<Rightarrow> string" where
  "repr_str s =
     (let quote = (if CHR 0x27 \<in> set s \<and> CHR 0x22 \<notin> set s then CHR 0x22 else CHR 0x27)
      in [quote] @ concat (map (repr_char quote) s) @ [quote])"

fun repr_val :: "pyval \<Rightarrow> string" where
  "repr_val VNone = ''None''"
| "repr_val (VBool b) = (if b then ''True'' else ''False'')"
| "repr_val (VInt n) = str_int n"
| "repr_val (VStr s) = repr_str s"

text \<open>\<^verbatim>\<open>str\<close> of a list of (name, value) tuples.\<close>

definition repr_item :: "string \<times> pyval \<Rightarrow> string" where
  "repr_item kv = ''('' @ repr_str (fst kv) @ '', '' @ repr_val (snd kv) @ '')''"

fun join :: "string \<Rightarrow> string list \<Rightarrow> string" where
  "join sep [] = []"
| "join sep [x] = x"
| "join sep (x # y # rest) = x @ sep @ join sep (y # rest)"

definition str_items :: "(string \<times> pyval) list \<Rightarrow> string" where
  "str_items kvs = ''['' @ join '', '' (map repr_item kvs) @ '']''"

text \<open>\<^verbatim>\<open>s.encode("utf-8")\<close> for code points below 256: one byte below 128, two above.\<close>

definition utf8_char :: "char \<Rightarrow> 8 word list" where
  "utf8_char c =
     (let n = (of_char c :: nat)
      in if n < 128 then [of_nat n] else [of_nat (192 + n div 64), of_nat (128 + n mod 64)])"

definition utf8_encode :: "string \<Rightarrow> 8 word list" where
  "utf8_encode s = concat (map utf8_char s)"

subsection \<open>SHA-256 (\<^verbatim>\<open>hashlib.sha256\<close>)\<close>

definition sha_K :: "32 word list" where
  "sha_K =
     [
      0x428A2F98, 0x71374491, 0xB5C0FBCF, 0xE9B5DBA5, 0x3956C25B, 0x59F111F1,
      0x923F82A4, 0xAB1C5ED5, 0xD807AA98, 0x12835B01, 0x243185BE, 0x550C7DC3,
      0x72BE5D74, 0x80DEB1FE, 0x9BDC06A7, 0xC19BF174, 0xE49B69C1, 0xEFBE4786,
      0x0FC19DC6, 0x240CA1CC, 0x2DE92C6F, 0x4A7484AA, 0x5CB0A9DC, 0x76F988DA,
      0x983E5152, 0xA831C66D, 0xB00327C8, 0xBF597FC7, 0xC6E00BF3, 0xD5A79147,
      0x06CA6351, 0x14292967, 0x27B70A85, 0x2E1B2138, 0x4D2C6DFC, 0x53380D13,
      0x650A7354, 0x766A0ABB, 0x81C2C92E, 0x92722C85, 0xA2BFE8A1, 0xA81A664B,
      0xC24B8B70, 0xC76C51A3, 0xD192E819, 0xD6990624, 0xF40E3585, 0x106AA070,
      0x19A4C116, 0x1E376C08, 0x2748774C, 0x34B0BCB5, 0x391C0CB3, 0x4ED8AA4A,
      0x5B9CCA4F, 0x682E6FF3, 0x748F82EE, 0x78A5636F, 0x84C87814, 0x8CC70208,
      0x90BEFFFA, 0xA4506CEB, 0xBEF9A3F7, 0xC67178F2]"

type_synonym sha_state =
  "32 word \<times> 32 word \<times> 32 word \<times> 32 word \<times> 32 word \<times> 32 word \<times> 32 word \<times> 32 word"

definition sha_H0 :: sha_state where
  "sha_H0 = (0x6A09E667, 0xBB67AE85, 0x3C6EF372, 0xA54FF53A,
      0x510E527F, 0x9B05688C, 0x1F83D9AB, 0x5BE0CD19)"

definition rotr :: "nat \<Rightarrow> 32 word \<Rightarrow> 32 word" where
  "rotr n x = word_rotr n x"

definition Ch :: "32 word \<Rightarrow> 32 word \<Rightarrow> 32 word \<Rightarrow> 32 word" where
  "Ch x y z = (x AND y) XOR (NOT x AND z)"

definition Maj :: "32 word \<Rightarrow> 32 word \<Rightarrow> 32 word \<Rightarrow> 32 word" where
  "Maj x y z = (x AND y) XOR (x AND z) XOR (y AND z)"

definition Sigma0 :: "32 word \<Rightarrow> 32 word" where
  "Sigma0 x = rotr 2 x XOR rotr 13 x XOR rotr 22 x"

definition Sigma1 :: "32 word \<Rightarrow> 32 word" where
  "Sigma1 x = rotr 6 x XOR rotr 11 x XOR rotr 25 x"

definition sigma0 :: "32 word \<Rightarrow> 32 word" where
  "sigma0 x = rotr 7 x XOR rotr 18 x XOR drop_bit 3 x"

definition sigma1 :: "32 word \<Rightarrow> 32 word" where
  "sigma1 x = rotr 17 x XOR rotr 19 x XOR drop_bit 10 x"

text \<open>Padding: a one bit, zeros up to 56 modulo 64 bytes, the bit length on 8 bytes.\<close>

definition be_bytes :: "nat \<Rightarrow> nat \<Rightarrow> 8 word list" where
  "be_bytes k n = map (\<lambda>i. of_nat (n div 256 ^ (k - 1 - i))) [0..<k]"

definition sha_pad :: "8 word list \<Rightarrow> 8 word list" where
  "sha_pad msg =
     msg @ [0x80] @ replicate ((119 - length msg mod 64) mod 64) 0 @ be_bytes 8 (8 * length msg)"

definition be_word :: "8 word list \<Rightarrow> 32 word" where
  "be_word bs = foldl (\<lambda>w b. push_bit 8 w OR ucast b) 0 bs"

fun chunks :: "nat \<Rightarrow> 'a list \<Rightarrow> 'a list list" where
  "chunks n xs = (if n = 0 \<or> xs = [] then [] else take n xs # chunks n (drop n xs))"

declare chunks.simps [simp del]

text \<open>The message schedule: 16 words of the block, extended to 64.\<close>

definition schedule_step :: "32 word list \<Rightarrow> 32 word list" where
  "schedule_step w =
     (let t = length w
      in w @ [sigma1 (w ! (t - 2)) + w ! (t - 7) + sigma0 (w ! (t - 15)) + w ! (t - 16)])"

definition schedule :: "8 word list \<Rightarrow> 32 word list" where
  "schedule block = (schedule_step ^^ 48) (map be_word (chunks 4 block))"

definition sha_round :: "sha_state \<Rightarrow> 32 word \<times> 32 word \<Rightarrow> sha_state" where
  "sha_round s kw =
     (case s of (a, b, c, d, e, f, g, h) \<Rightarrow>
        let t1 = h + Sigma1 e + Ch e f g + fst kw + snd kw;
            t2 = Sigma0 a + Maj a b c
        in (t1 + t2, a, b, c, d + t1, e, f, g))"

definition sha_add :: "sha_state \<Rightarrow> sha_state \<Rightarrow> sha_state" where
  "sha_add s s' =
     (case s of (a, b, c, d, e, f, g, h) \<Rightarrow>
      case s' of (a', b', c', d', e', f', g', h') \<Rightarrow>
        (a + a', b + b', c + c', d + d', e + e', f + f', g + g', h + h'))"

definition sha_compress :: "sha_state \<Rightarrow> 8 word list \<Rightarrow> sha_state" where
  "sha_compress s block = sha_add s (foldl sha_round s (zip sha_K (schedule block)))"

definition sha256 :: "8 word list \<Rightarrow> sha_state" where
  "sha256 msg = foldl sha_compress sha_H0 (chunks 64 (sha_pad msg))"

text \<open>\<^verbatim>\<open>hexdigest()\<close>: the eight words, each as eight lower-case hexadecimal digits.\<close>

definition hex_word :: "32 word \<Rightarrow> string" where
  "hex_word w = map (\<lambda>i. hex_digit (unat (drop_bit (4 * (7 - i)) w AND 0xF))) [0..<8]"

definition hexdigest :: "sha_state \<Rightarrow> string" where
  "hexdigest s =
     (case s of (a, b, c, d, e, f, g, h) \<Rightarrow>
        hex_word a @ hex_word b @ hex_word c @ hex_word d @
        hex_word e @ hex_word f @ hex_word g @ hex_word h)"

subsection \<open>The cache key\<close>

text \<open>
  A parameter dictionary is the list of its items in insertion order; its keys are
  pairwise distinct. \<^verbatim>\<open>sorted(params.items())\<close> compares the tuples, and since the keys
  differ the values are never compared: the items are sorted by key. \<open>cache_key\<close> is the
  value that \<^verbatim>\<open>_generate_cache_key\<close> returns; the method also logs it.
\<close>

type_synonym params = "(string \<times> pyval) list option"

definition cache_key :: "string \<Rightarrow> params \<Rightarrow> string" where
  "cache_key query params =
     (let cache_input = strip query;
          cache_input =
            (case params of
               None \<Rightarrow> cache_input
             | Some [] \<Rightarrow> cache_input
             | Some items \<Rightarrow>
                 let sorted_params = sort_key fst items;
                     params_str = str_items sorted_params
                 in cache_input @ ''__PARAMS__'' @ params_str)
      in take 16 (hexdigest (sha256 (utf8_encode cache_input))))"

definition generate_cache_key :: "string \<Rightarrow> params \<Rightarrow> string \<times> log_record list" where
  "generate_cache_key query params =
     (let key = cache_key query params
      in (key, [(DEBUG, ''Generated cache key: '' @ key)]))"

subsection \<open>The store, pandas and the environment of a call\<close>

text \<open>
  A path is a directory and a file name (\<^verbatim>\<open>self.cache_dir / cache_filename\<close>); the file
  system maps the paths that exist to their modification time (a float, given by its value)
  and their bytes.
\<close>

record path =
  parent :: string
  name :: string

record file_entry =
  st_mtime :: rat
  content :: string

type_synonym filesystem = "path \<rightharpoonup> file_entry"

text \<open>
  pandas is a collaborator. Its Parquet serialisation is a pair of functions: the bytes
  that \<^verbatim>\<open>to_parquet(compression="snappy", index=False)\<close> writes for a frame, and what
  \<^verbatim>\<open>read_parquet\<close> makes of the bytes of a file (a frame, or an exception). With
  \<^verbatim>\<open>index=False\<close> the labels of the index are not written, so that reading the bytes
  of a frame gives at best the frame with the default index.
\<close>

record parquet =
  to_parquet_bytes :: "dataframe \<Rightarrow> string"
  read_parquet_bytes :: "string \<Rightarrow> external_error + dataframe"

text \<open>
  What the operating system does during one call of \<^verbatim>\<open>get_or_compute\<close>: the clock
  reading that \<^verbatim>\<open>time.time()\<close> returns, whether reading the cache file fails with an
  I/O error, how a write goes and the modification time it stamps. \<^verbatim>\<open>to_parquet\<close> is
  called on the final path: when it fails, the file of that path is untouched (the failure
  came before the file was opened), removed, or left with the bytes written so far.
\<close>

datatype leftover = Untouched | Removed | Partial string

datatype write_outcome = Written | WriteFailed external_error leftover

record call_env =
  time_now :: rat
  read_fault :: "external_error option"
  write_result :: write_outcome
  write_stamp :: rat

text \<open>
  What a compute function returns: \<^verbatim>\<open>None\<close>, a DataFrame, or an object of another
  type, given by the text of \<^verbatim>\<open>type(result)\<close>, such as \<^verbatim>\<open><class 'str'>\<close>. A compute
  function may raise any exception and may have a state of its own (a counter, a remote
  service); it does not write to the cache directory or to the cache's log. Calls are
  sequential: one caller, one thread.
\<close>

datatype pyobj = PyNone | PyDataFrame dataframe | PyOther string

type_synonym 's compute_fn = "'s \<Rightarrow> (exn + pyobj) \<times> 's"

text \<open>
  The state that \<^verbatim>\<open>get_or_compute\<close> threads: the file system, the log, the number of
  calls of the compute function so far, and the compute function's own state.
\<close>

record 's world =
  files :: filesystem
  cache_log :: "log_record list"
  compute_calls :: nat
  compute_state :: 's

definition log_cache :: "log_level \<Rightarrow> string \<Rightarrow> 's world \<Rightarrow> 's world" where
  "log_cache lvl msg w = w\<lparr>cache_log := cache_log w @ [(lvl, msg)]\<rparr>"

subsection \<open>\<^verbatim>\<open>QueryCache\<close>\<close>

record query_cache =
  cache_dir :: string
  ttl_hours :: int

text \<open>
  \<^verbatim>\<open>__init__\<close>: the two settings are read from the configuration, and one line is
  logged. Directories are not modelled, so the \<^verbatim>\<open>mkdir\<close> of the cache directory leaves
  no trace.
\<close>

definition QueryCache :: "pipeline_config \<Rightarrow> 's world \<Rightarrow> query_cache \<times> 's world" where
  "QueryCache config w =
     (\<lparr>cache_dir = LOCAL_CACHE_DIR config, ttl_hours = CACHE_TTL_HOURS config\<rparr>,
      log_cache INFO
        (''Query cache initialized: '' @ LOCAL_CACHE_DIR config @ '' '' @
         ''(TTL: '' @ str_int (CACHE_TTL_HOURS config) @ '' hours)'') w)"

text \<open>\<^verbatim>\<open>age_hours = (current_time - mod_time) / 3600\<close>, in float arithmetic.\<close>

definition age_hours :: "rat \<Rightarrow> rat \<Rightarrow> pyfloat" where
  "age_hours current_time mod_time = float_div_const (float_sub current_time mod_time) 3600"

definition is_cache_valid ::
  "query_cache \<Rightarrow> call_env \<Rightarrow> filesystem \<Rightarrow> path \<Rightarrow> bool \<times> log_record list" where
  "is_cache_valid qc env fs cache_path =
     (case fs cache_path of
        None \<Rightarrow> (False, [])
      | Some f \<Rightarrow>
          let mod_time = st_mtime f;
              current_time = time_now env;
              age = age_hours current_time mod_time;
              is_valid = float_lt_int age (ttl_hours qc)
          in (is_valid,
              [(DEBUG,
                (if is_valid then ''Cache hit: '' else ''Cache expired: '') @ name cache_path @ '' '' @
                ''(age: '' @ format_fixed 1 age @ ''h, TTL: '' @ str_int (ttl_hours qc) @ ''h)'')]))"

text \<open>\<^verbatim>\<open>pd.read_parquet(cache_path)\<close> and \<^verbatim>\<open>result_df.to_parquet(cache_path, ...)\<close>.\<close>

definition read_parquet :: "parquet \<Rightarrow> call_env \<Rightarrow> filesystem \<Rightarrow> path \<Rightarrow> external_error + dataframe" where
  "read_parquet pq env fs cache_path =
     (case read_fault env of
        Some err \<Rightarrow> Inl err
      | None \<Rightarrow>
          (case fs cache_path of
             None \<Rightarrow> Inl (OtherError ''FileNotFoundError'' (name cache_path))
           | Some f \<Rightarrow> read_parquet_bytes pq (content f)))"

definition to_parquet ::
  "parquet \<Rightarrow> call_env \<Rightarrow> dataframe \<Rightarrow> path \<Rightarrow> filesystem \<Rightarrow> external_error option \<times> filesystem" where
  "to_parquet pq env df cache_path fs =
     (case write_result env of
        Written \<Rightarrow>
          (None, fs(cache_path \<mapsto> \<lparr>st_mtime = write_stamp env, content = to_parquet_bytes pq df\<rparr>))
      | WriteFailed err Untouched \<Rightarrow> (Some err, fs)
      | WriteFailed err Removed \<Rightarrow> (Some err, fs(cache_path := None))
      | WriteFailed err (Partial bytes) \<Rightarrow>
          (Some err, fs(cache_path \<mapsto> \<lparr>st_mtime = write_stamp env, content = bytes\<rparr>)))"

text \<open>
  Lines 148 to 159 of \<^verbatim>\<open>get_or_compute\<close>: the cached frame when the entry is fresh and
  readable, nothing otherwise. With \<^verbatim>\<open>force_refresh\<close> the freshness is not even looked at.
\<close>

definition load_cached ::
  "query_cache \<Rightarrow> parquet \<Rightarrow> call_env \<Rightarrow> path \<Rightarrow> bool \<Rightarrow> 's world \<Rightarrow> dataframe option \<times> 's world" where
  "load_cached qc pq env cache_path force_refresh w =
     (if force_refresh then (None, w)
      else
        let (valid, records) = is_cache_valid qc env (files w) cache_path;
            w1 = w\<lparr>cache_log := cache_log w @ records\<rparr>
        in if \<not> valid then (None, w1)
           else
             let w2 = log_cache INFO (''Loading cached result: '' @ name cache_path) w1
             in (case read_parquet pq env (files w2) cache_path of
                   Inr cached_df \<Rightarrow>
                     (Some cached_df,
                      log_cache INFO
                        (''Cache hit: '' @ format_commas (int (df_len cached_df)) @ '' rows loaded'') w2)
                 | Inl e \<Rightarrow>
                     (None,
                      log_cache WARNING
                        (''Failed to load cache file '' @ name cache_path @ '': '' @
                         exn_str (External e) @ ''. '' @ ''Will re-compute.'') w2)))"

text \<open>The outer \<^verbatim>\<open>except Exception\<close> of the compute block: log, then re-raise.\<close>

definition compute_failed :: "exn \<Rightarrow> 's world \<Rightarrow> (exn + dataframe) \<times> 's world" where
  "compute_failed e w = (Inl e, log_cache ERROR (''Compute function failed: '' @ exn_str e) w)"

text \<open>
  The inner \<^verbatim>\<open>try\<close>: write the frame, then log its size in MB; any exception in there is
  logged and swallowed.
\<close>

definition cache_result ::
  "parquet \<Rightarrow> call_env \<Rightarrow> dataframe \<Rightarrow> path \<Rightarrow> 's world \<Rightarrow> 's world" where
  "cache_result pq env result_df cache_path w =
     (case to_parquet pq env result_df cache_path (files w) of
        (Some err, fs) \<Rightarrow>
          log_cache ERROR (''Failed to cache result: '' @ exn_str (External err)) (w\<lparr>files := fs\<rparr>)
      | (None, fs) \<Rightarrow>
          let st_size = int (length (to_parquet_bytes pq result_df))
          in (case int_true_div st_size 1024 of
                Inl e \<Rightarrow> log_cache ERROR (''Failed to cache result: '' @ exn_str e) (w\<lparr>files := fs\<rparr>)
              | Inr kb \<Rightarrow>
                  log_cache INFO
                    (''Result cached: '' @ name cache_path @ '' '' @
                     ''('' @ format_commas (int (df_len result_df)) @ '' rows, '' @
                     format_fixed 1 (float_div_const kb 1024) @ '' MB)'') (w\<lparr>files := fs\<rparr>)))"

text \<open>Lines 161 to 205: call the compute function, validate, cache, return.\<close>

definition compute_and_cache ::
  "parquet \<Rightarrow> call_env \<Rightarrow> path \<Rightarrow> 's compute_fn \<Rightarrow> bool \<Rightarrow> 's world \<Rightarrow> (exn + dataframe) \<times> 's world" where
  "compute_and_cache pq env cache_path compute_fn force_refresh w =
     (let w1 = (if force_refresh
                then log_cache INFO (''Force refresh requested for: '' @ name cache_path) w
                else log_cache INFO (''Cache miss for: '' @ name cache_path) w);
          w2 = log_cache INFO ''Computing new result...'' w1;
          (outcome, s) = compute_fn (compute_state w2);
          w3 = w2\<lparr>compute_calls := compute_calls w2 + 1, compute_state := s\<rparr>
      in case outcome of
           Inl e \<Rightarrow> compute_failed e w3
         | Inr PyNone \<Rightarrow>
             (Inr pd_DataFrame, log_cache WARNING ''Compute function returned None'' w3)
         | Inr (PyOther type_text) \<Rightarrow>
             compute_failed
               (TypeError (''Compute function must return a pandas DataFrame, '' @ ''got '' @ type_text)) w3
         | Inr (PyDataFrame result_df) \<Rightarrow>
             if df_empty result_df
             then (Inr result_df, log_cache WARNING ''Compute function returned empty DataFrame'' w3)
             else (Inr result_df, cache_result pq env result_df cache_path w3))"

definition cache_path_of :: "query_cache \<Rightarrow> string \<Rightarrow> params \<Rightarrow> path" where
  "cache_path_of qc query params =
     \<lparr>parent = cache_dir qc, name = ''query_'' @ cache_key query params @ ''.parquet''\<rparr>"

definition get_or_compute ::
  "query_cache \<Rightarrow> parquet \<Rightarrow> call_env \<Rightarrow> string \<Rightarrow> 's compute_fn \<Rightarrow> params \<Rightarrow> bool \<Rightarrow> 's world
     \<Rightarrow> (exn + dataframe) \<times> 's world" where
  "get_or_compute qc pq env query compute_fn params force_refresh w =
     (let (cache_key, records) = generate_cache_key query params;
          w0 = w\<lparr>cache_log := cache_log w @ records\<rparr>;
          cache_filename = ''query_'' @ cache_key @ ''.parquet'';
          cache_path = \<lparr>parent = cache_dir qc, name = cache_filename\<rparr>
      in case load_cached qc pq env cache_path force_refresh w0 of
           (Some cached_df, w1) \<Rightarrow> (Inr cached_df, w1)
         | (None, w1) \<Rightarrow> compute_and_cache pq env cache_path compute_fn force_refresh w1)"

text \<open>
  The condition under which a call returns the cached frame: not forced, the entry fresh
  and its file readable.
\<close>

definition cache_hit :: "query_cache \<Rightarrow> parquet \<Rightarrow> call_env \<Rightarrow> filesystem \<Rightarrow> path \<Rightarrow> bool \<Rightarrow> bool" where
  "cache_hit qc pq env fs cache_path force_refresh =
     (\<not> force_refresh \<and> fst (is_cache_valid qc env fs cache_path) \<and>
      (case read_parquet pq env fs cache_path of Inr cached_df \<Rightarrow> True | Inl e \<Rightarrow> False))"

text \<open>
  The world after the lookup of lines 142 to 159: the one returned on a hit, the one in
  which the compute block starts on a miss. It differs from the world before in its log only.
\<close>

definition after_lookup ::
  "query_cache \<Rightarrow> parquet \<Rightarrow> call_env \<Rightarrow> string \<Rightarrow> params \<Rightarrow> bool \<Rightarrow> 's world \<Rightarrow> 's world" where
  "after_lookup qc pq env query params force w =
     snd (load_cached qc pq env (cache_path_of qc query params) force
            (w\<lparr>cache_log := cache_log w @ snd (generate_cache_key query params)\<rparr>))"

text \<open>\<^verbatim>\<open>isinstance(result_df, pd.DataFrame)\<close>.\<close>

definition is_DataFrame :: "pyobj \<Rightarrow> bool" where
  "is_DataFrame v = (case v of PyDataFrame df \<Rightarrow> True | _ \<Rightarrow> False)"

section \<open>Example instances\<close>

text \<open>
  A configuration with a ceiling of \<open>limit\<close> bytes, and a BigQuery service whose dry
  run reports \<open>b\<close> bytes for every query and whose execution returns a frame of three
  rows, billing \<open>b\<close> bytes.
\<close>

definition example_config :: "int \<Rightarrow> pipeline_config" where
  "example_config limit =
     \<lparr>PROJECT_ID = ''test-project'', MAX_BYTES_BILLED = limit,
      LOCAL_CACHE_DIR = ''data/cache'', CACHE_TTL_HOURS = 24\<rparr>"

definition example_frame :: dataframe where
  "example_frame =
     \<lparr>n_rows = 3, index_labels = None, columns = [(''id'', [VInt 1, VInt 2, VInt 3])]\<rparr>"

definition example_bigquery :: "int \<Rightarrow> bigquery" where
  "example_bigquery b =
     \<lparr>client_query = (\<lambda>calls query job_config.
        Inr \<lparr>total_bytes_processed = Some b, total_bytes_billed = Some b,
             to_dataframe = Inr example_frame\<rparr>),
      job_config_hasattr = (\<lambda>key. key = ''dry_run'' \<or> key = ''use_query_cache''
        \<or> key = ''maximum_bytes_billed'' \<or> key = ''priority'')\<rparr>"

definition initial_client_state :: client_state where
  "initial_client_state = \<lparr>query_calls = [], client_log = []\<rparr>"

text \<open>
  A cache of 24 hours, a serialisation that knows the columns of one frame (the index is
  not written, so the bytes are the same whatever the index), an environment in which
  everything works at clock reading \<open>t\<close>, and a world with an empty cache directory.
\<close>

definition example_cache :: query_cache where
  "example_cache = \<lparr>cache_dir = ''data/cache'', ttl_hours = 24\<rparr>"

definition example_parquet :: parquet where
  "example_parquet =
     \<lparr>to_parquet_bytes = (\<lambda>df. ''PAR1 id 1 2 3 PAR1''),
      read_parquet_bytes = (\<lambda>bytes.
        if bytes = ''PAR1 id 1 2 3 PAR1'' then Inr example_frame
        else Inl (OtherError ''ArrowInvalid'' ''Parquet magic bytes not found in footer''))\<rparr>"

definition example_env :: "rat \<Rightarrow> call_env" where
  "example_env t = \<lparr>time_now = t, read_fault = None, write_result = Written, write_stamp = t\<rparr>"

definition empty_world :: "nat world" where
  "empty_world = \<lparr>files = Map.empty, cache_log = [], compute_calls = 0, compute_state = 0\<rparr>"

text \<open>A compute function that counts its calls and returns the value \<open>v\<close>.\<close>

definition returning :: "pyobj \<Rightarrow> nat compute_fn" where
  "returning v = (\<lambda>s. (Inr v, s + 1))"

text \<open>
  The path of the entry of the query \<^verbatim>\<open>SELECT 1\<close>, a world in which that entry is
  cached with modification time 1000, and an environment at clock reading \<open>t\<close> in which
  a write fails with a full disk, leaving \<open>lo\<close> behind.
\<close>

definition example_path :: path where
  "example_path = cache_path_of example_cache ''SELECT 1'' None"

definition cached_world :: "nat world" where
  "cached_world =
     empty_world\<lparr>files := [example_path \<mapsto> \<lparr>st_mtime = 1000, content = ''PAR1 id 1 2 3 PAR1''\<rparr>]\<rparr>"

definition disk_full_env :: "rat \<Rightarrow> leftover \<Rightarrow> call_env" where
  "disk_full_env t lo =
     \<lparr>time_now = t, read_fault = None,
      write_result = WriteFailed (OtherError ''OSError'' ''No space left on device'') lo,
      write_stamp = t\<rparr>"

text \<open>
  The example frame with the rows labelled \<^verbatim>\<open>a\<close>, \<^verbatim>\<open>b\<close>, \<^verbatim>\<open>c\<close>
  (\<^verbatim>\<open>pd.DataFrame({"id": [1, 2, 3]}, index=["a", "b", "c"])\<close>), and an environment at
  clock reading \<open>t\<close> in which \<^verbatim>\<open>to_parquet\<close> fails before it opens the file, because
  the frame cannot be converted.
\<close>

definition labelled_frame :: dataframe where
  "labelled_frame =
     \<lparr>n_rows = 3, index_labels = Some [VStr ''a'', VStr ''b'', VStr ''c''],
      columns = [(''id'', [VInt 1, VInt 2, VInt 3])]\<rparr>"



section \<open>Properties of the number model\<close>

lemma pow2_powi: "pow2 e = 2 powi e"
  by (simp add: pow2_def power_int_def power_one_over)

lemma pow2_pos [simp]: "0 < pow2 e"
  by (simp add: pow2_powi)

lemma pow2_nonneg [simp]: "0 \<le> pow2 e"
  by (rule less_imp_le) (rule pow2_pos)

lemma pow2_nonzero [simp]: "pow2 e \<noteq> 0"
  by (simp add: pow2_powi)

lemma pow2_abs [simp]: "\<bar>pow2 e\<bar> = pow2 e"
  by (simp add: abs_of_pos)

lemma pow2_add: "pow2 (a + b) = pow2 a * pow2 b"
  by (simp add: pow2_powi power_int_add)

lemma pow2_nat: "pow2 (int n) = 2 ^ n"
  by (simp add: pow2_def)

lemma pow2_mono: "a \<le> b \<Longrightarrow> pow2 a \<le> pow2 b"
  by (simp add: pow2_powi power_int_increasing)

lemma pow2_strict_mono: "a < b \<Longrightarrow> pow2 a < pow2 b"
  by (simp add: pow2_powi power_int_strict_increasing)

lemma pow2_less_iff: "pow2 a < pow2 b \<longleftrightarrow> a < b"
  using pow2_mono [of b a] pow2_strict_mono [of a b] by (auto simp: not_less [symmetric])

lemma bit_length_bounds:
  "0 < n \<Longrightarrow> pow2 (bit_length n - 1) \<le> of_int n \<and> of_int n < pow2 (bit_length n)"
proof (induction n rule: bit_length.induct)
  case (1 n)
  show ?case
  proof (cases "n div 2 \<le> 0")
    case True
    with "1.prems" have "n = 1" by simp
    then show ?thesis
      by (simp add: bit_length.simps [of 1] bit_length.simps [of 0] pow2_def)
  next
    case False
    then have pos: "0 < n div 2" by simp
    define j where "j = bit_length (n div 2)"
    from "1.IH" [OF _ pos] "1.prems"
    have ih: "pow2 (j - 1) \<le> of_int (n div 2)" "of_int (n div 2) < pow2 j"
      by (simp_all add: j_def)
    have bl: "bit_length n = 1 + j"
      using "1.prems" unfolding j_def by (subst bit_length.simps) simp
    have "pow2 (j - 1) = of_int (2 ^ nat (j - 1)) \<or> j - 1 < 0"
      by (simp add: pow2_def)
    have lo: "pow2 j \<le> of_int n"
    proof -
      have "pow2 j = 2 * pow2 (j - 1)" using pow2_add [of 1 "j - 1"] by (simp add: pow2_def)
      also have "\<dots> \<le> 2 * of_int (n div 2)" using ih(1) by simp
      also have "\<dots> \<le> of_int n"
      proof -
        have "2 * (n div 2) \<le> n" by simp
        then have "(of_int (2 * (n div 2)) :: rat) \<le> of_int n" by (simp only: of_int_le_iff)
        then show ?thesis by simp
      qed
      finally show ?thesis .
    qed
    have hi: "of_int n < pow2 (1 + j)"
    proof -
      have jpos: "0 \<le> j"
      proof (rule ccontr)
        assume "\<not> 0 \<le> j"
        then have "pow2 j \<le> pow2 0" by (intro pow2_mono) simp
        then have "pow2 j \<le> 1" by (simp add: pow2_def)
        moreover have "(1::rat) \<le> of_int (n div 2)" using pos by simp
        ultimately show False using ih(2) by simp
      qed
      then have pj: "pow2 j = of_int (2 ^ nat j)" by (simp add: pow2_def)
      from ih(2) have "n div 2 < 2 ^ nat j" unfolding pj by (simp only: of_int_less_iff)
      then have "n < 2 * 2 ^ nat j" by simp
      then have "(of_int n :: rat) < of_int (2 * 2 ^ nat j)" by (simp only: of_int_less_iff)
      also have "\<dots> = 2 * pow2 j" by (simp add: pj)
      also have "\<dots> = pow2 (1 + j)" using pow2_add [of 1 j] by (simp add: pow2_def)
      finally show ?thesis .
    qed
    show ?thesis using lo hi by (simp add: bl)
  qed
qed

lemma floor_log2_bounds:
  assumes "0 < x"
  shows "pow2 (floor_log2 x) \<le> x \<and> x < pow2 (floor_log2 x + 1)"
proof -
  obtain p q where pq: "quotient_of x = (p, q)" by (cases "quotient_of x")
  then have qpos: "0 < q" and x: "x = of_int p / of_int q"
    by (simp_all add: quotient_of_denom_pos quotient_of_div)
  with assms have ppos: "0 < p" by (simp add: zero_less_divide_iff)
  define a where "a = bit_length p"
  define b where "b = bit_length q"
  from bit_length_bounds [OF ppos]
  have P1: "pow2 (a - 1) \<le> of_int p" and P2: "of_int p < pow2 a" by (simp_all add: a_def)
  from bit_length_bounds [OF qpos]
  have Q1: "pow2 (b - 1) \<le> of_int q" and Q2: "of_int q < pow2 b" by (simp_all add: b_def)
  define d where "d = a - b"
  have fl: "floor_log2 x = (if pow2 d \<le> x then d else d - 1)"
    by (simp add: floor_log2_def pq a_def b_def d_def Let_def)
  have qr: "(0::rat) < of_int q" using qpos by simp
  have low: "pow2 (d - 1) \<le> x"
  proof -
    have "pow2 (d - 1) * pow2 b = pow2 (a - 1)"
      by (simp add: pow2_add [symmetric] d_def)
    moreover have "pow2 (d - 1) * of_int q \<le> pow2 (d - 1) * pow2 b"
      using Q2 by (simp add: less_imp_le)
    ultimately have "pow2 (d - 1) * of_int q \<le> pow2 (a - 1)" by simp
    then have "pow2 (d - 1) * of_int q \<le> of_int p" using P1 by (rule order_trans)
    then show ?thesis using qr by (simp add: x pos_le_divide_eq)
  qed
  have up: "x < pow2 (d + 1)"
  proof -
    have "pow2 (d + 1) * pow2 (b - 1) = pow2 a"
      by (simp add: pow2_add [symmetric] d_def)
    moreover have "pow2 (d + 1) * pow2 (b - 1) \<le> pow2 (d + 1) * of_int q"
      using Q1 by simp
    ultimately have "pow2 a \<le> pow2 (d + 1) * of_int q" by simp
    with P2 have "of_int p < pow2 (d + 1) * of_int q" by (rule less_le_trans)
    then show ?thesis using qr by (simp add: x pos_divide_less_eq)
  qed
  show ?thesis
  proof (cases "pow2 d \<le> x")
    case True
    then show ?thesis using up by (simp add: fl)
  next
    case False
    then show ?thesis using low by (simp add: fl)
  qed
qed

lemma round_half_even_of_int: "round_half_even (of_int j) = j"
  by (simp add: round_half_even_def)

lemma overflow_test:
  assumes "m \<noteq> 0"
  shows "1024 < bit_length \<bar>m\<bar> + q \<longleftrightarrow> pow2 1024 \<le> \<bar>of_int m * pow2 q\<bar>"
proof -
  from assms have pos: "0 < \<bar>m\<bar>" by simp
  define l where "l = bit_length \<bar>m\<bar>"
  from bit_length_bounds [OF pos]
  have lo: "pow2 (l - 1) \<le> of_int \<bar>m\<bar>" and hi: "of_int \<bar>m\<bar> < pow2 l"
    by (simp_all add: l_def)
  have ab: "\<bar>of_int m * pow2 q\<bar> = of_int \<bar>m\<bar> * pow2 q" by (simp add: abs_mult)
  show ?thesis
  proof
    assume "1024 < bit_length \<bar>m\<bar> + q"
    then have "1024 \<le> (l - 1) + q" by (simp add: l_def)
    then have "pow2 1024 \<le> pow2 ((l - 1) + q)" by (rule pow2_mono)
    also have "\<dots> = pow2 (l - 1) * pow2 q" by (rule pow2_add)
    also have "\<dots> \<le> of_int \<bar>m\<bar> * pow2 q" using lo by (intro mult_right_mono) simp_all
    finally show "pow2 1024 \<le> \<bar>of_int m * pow2 q\<bar>" by (simp only: ab)
  next
    assume "pow2 1024 \<le> \<bar>of_int m * pow2 q\<bar>"
    then have "pow2 1024 \<le> of_int \<bar>m\<bar> * pow2 q" by (simp only: ab)
    also have "\<dots> < pow2 l * pow2 q" using hi by (intro mult_strict_right_mono) simp_all
    also have "\<dots> = pow2 (l + q)" by (rule pow2_add [symmetric])
    finally have "1024 < l + q" by (simp only: pow2_less_iff)
    then show "1024 < bit_length \<bar>m\<bar> + q" by (simp add: l_def)
  qed
qed

lemma round_float_exact:
  assumes n0: "n \<noteq> 0" and n53: "\<bar>n\<bar> < 2 ^ 53" and k: "- 1074 \<le> k"
    and fin: "\<bar>of_int n\<bar> * pow2 k < pow2 1024"
  shows "round_float (of_int n * pow2 k) = Finite (of_int n * pow2 k)"
proof -
  define x :: rat where "x = of_int n * pow2 k"
  have x0: "x \<noteq> 0" using n0 by (simp add: x_def)
  have ax: "\<bar>x\<bar> = \<bar>of_int n\<bar> * pow2 k" by (simp add: x_def abs_mult)
  define e where "e = floor_log2 \<bar>x\<bar>"
  from floor_log2_bounds [of "\<bar>x\<bar>"] x0 have lo: "pow2 e \<le> \<bar>x\<bar>" by (simp add: e_def)
  have "\<bar>of_int n :: rat\<bar> < 2 ^ 53"
  proof -
    have "(of_int \<bar>n\<bar> :: rat) < of_int (2 ^ 53)" using n53 by (simp only: of_int_less_iff)
    then show ?thesis by simp
  qed
  then have "\<bar>of_int n :: rat\<bar> < pow2 53" by (simp add: pow2_def)
  then have "\<bar>x\<bar> < pow2 53 * pow2 k" unfolding ax by (rule mult_strict_right_mono) simp
  with lo have "pow2 e < pow2 (53 + k)" by (simp add: pow2_add)
  then have ek: "e - 52 \<le> k" by (simp add: pow2_less_iff)
  define q where "q = max (e - 52) (- 1074)"
  have qk: "q \<le> k" using ek k by (simp add: q_def)
  define j where "j = nat (k - q)"
  have kq: "k = q + int j" using qk by (simp add: j_def)
  have xq: "x / pow2 q = of_int (n * 2 ^ j)"
    by (simp add: x_def kq pow2_add pow2_nat )
  have m: "round_half_even (x / pow2 q) = n * 2 ^ j"
    unfolding xq by (rule round_half_even_of_int)
  have r: "of_int (n * 2 ^ j) * pow2 q = x"
    by (simp add: x_def kq pow2_add pow2_nat)
  have m0: "n * 2 ^ j \<noteq> 0" using n0 by simp
  have "\<not> pow2 1024 \<le> \<bar>x\<bar>" using fin by (simp add: ax not_le)
  then have nov: "\<not> 1024 < bit_length \<bar>n * 2 ^ j\<bar> + q"
    unfolding overflow_test [OF m0] r .
  have "round_float x = Finite x"
    unfolding round_float_def Let_def e_def [symmetric] q_def [symmetric] m r
    using x0 m0 nov by simp
  then show ?thesis by (simp add: x_def)
qed

text \<open>A finite result of the rounding is within half a quantum of the exact value.\<close>

lemma round_half_even_nearest: "\<bar>of_int (round_half_even y) - y\<bar> \<le> 1 / 2"
proof -
  define f where "f = \<lfloor>y\<rfloor>"
  define d where "d = y - of_int f"
  have d0: "0 \<le> d" and d1: "d < 1" unfolding d_def f_def by linarith+
  have y: "y = of_int f + d" by (simp add: d_def)
  have r: "round_half_even y = (if d < 1 / 2 then f else if 1 / 2 < d then f + 1
                                else if even f then f else f + 1)"
    by (simp add: round_half_even_def Let_def f_def d_def)
  have lo: "\<bar>of_int f - y\<bar> = d" using d0 by (simp add: y)
  have hi: "\<bar>of_int (f + 1) - y\<bar> = 1 - d" using d1 by (simp add: y)
  consider "d < 1 / 2" | "1 / 2 < d" | "d = 1 / 2" by linarith
  then show ?thesis
  proof cases
    case 1
    then have "round_half_even y = f" by (simp add: r)
    with lo 1 show ?thesis by simp
  next
    case 2
    then have "round_half_even y = f + 1" by (simp add: r)
    with hi 2 show ?thesis by simp
  next
    case 3
    then have "round_half_even y = f \<or> round_half_even y = f + 1" by (simp add: r)
    with lo hi 3 show ?thesis by auto
  qed
qed

lemma round_float_nearest:
  assumes "round_float x = Finite r"
  shows "\<bar>r - x\<bar> \<le> pow2 (max (floor_log2 \<bar>x\<bar> - 52) (- 1074)) / 2"
proof (cases "x = 0")
  case True
  with assms show ?thesis by (simp add: round_float_def)
next
  case False
  define q where "q = max (floor_log2 \<bar>x\<bar> - 52) (- 1074)"
  define m where "m = round_half_even (x / pow2 q)"
  have near: "\<bar>of_int m - x / pow2 q\<bar> \<le> 1 / 2"
    unfolding m_def by (rule round_half_even_nearest)
  have scaled: "\<bar>of_int m * pow2 q - x\<bar> = \<bar>of_int m - x / pow2 q\<bar> * pow2 q"
  proof -
    have "of_int m * pow2 q - x = (of_int m - x / pow2 q) * pow2 q"
      by (simp add: algebra_simps)
    then show ?thesis by (simp add: abs_mult)
  qed
  have bound: "\<bar>of_int m * pow2 q - x\<bar> \<le> pow2 q / 2"
    unfolding scaled using near mult_right_mono [of "\<bar>of_int m - x / pow2 q\<bar>" "1 / 2" "pow2 q"]
    by simp
  from assms False have "r = of_int m * pow2 q \<or> (r = 0 \<and> m = 0)"
    by (auto simp: round_float_def Let_def q_def [symmetric] m_def [symmetric] split: if_splits)
  then have "r = of_int m * pow2 q" by auto
  with bound show ?thesis by (simp add: q_def)
qed

section \<open>Properties of the cost-aware client\<close>

lemma cost_usd_zero: "cost_usd 0 = Inr (Finite 0)"
  by (simp add: cost_usd_def int_true_div_def BYTES_PER_TIB_def float_mul_const_def round_float_def)

lemma BYTES_PER_TIB_pow2: "(1 :: rat) / of_int BYTES_PER_TIB = pow2 (- 40)"
  by (simp add: BYTES_PER_TIB_def pow2_def)

lemma cost_usd_exact:
  assumes small: "25 * \<bar>b\<bar> < 2 ^ 53"
  shows "cost_usd b = Inr (Finite (of_int b / of_int BYTES_PER_TIB * COST_PER_TIB_USD))"
proof (cases "b = 0")
  case True
  then show ?thesis by (simp add: cost_usd_zero)
next
  case False
  have b53: "\<bar>b\<bar> < 2 ^ 53" using small by simp
  have "\<bar>of_int b :: rat\<bar> < 2 ^ 53"
  proof -
    have "(of_int \<bar>b\<bar> :: rat) < of_int (2 ^ 53)" using b53 by (simp only: of_int_less_iff)
    then show ?thesis by simp
  qed
  then have "\<bar>of_int b :: rat\<bar> * pow2 (- 40) < 2 ^ 53 * pow2 (- 40)"
    by (rule mult_strict_right_mono) simp
  also have "\<dots> < pow2 1024" by (simp add: pow2_def)
  finally have fin1: "\<bar>of_int b :: rat\<bar> * pow2 (- 40) < pow2 1024" .
  have q: "(of_int b :: rat) / of_int BYTES_PER_TIB = of_int b * pow2 (- 40)"
    using BYTES_PER_TIB_pow2 by (simp add: divide_inverse)
  have r1: "round_float (of_int b / of_int BYTES_PER_TIB) = Finite (of_int b * pow2 (- 40))"
    unfolding q by (rule round_float_exact [OF False b53 _ fin1]) simp
  have B0: "BYTES_PER_TIB \<noteq> 0" by (simp add: BYTES_PER_TIB_def)
  have div: "int_true_div b BYTES_PER_TIB = Inr (Finite (of_int b * pow2 (- 40)))"
    using False B0 by (simp add: int_true_div_def r1)
  have n25: "25 * b \<noteq> 0" using False by simp
  have a25: "\<bar>25 * b\<bar> < 2 ^ 53" using small by (simp add: abs_mult)
  have "\<bar>of_int (25 * b) :: rat\<bar> < 2 ^ 53"
  proof -
    have "(of_int \<bar>25 * b\<bar> :: rat) < of_int (2 ^ 53)" using a25 by (simp only: of_int_less_iff)
    then show ?thesis by simp
  qed
  then have "\<bar>of_int (25 * b) :: rat\<bar> * pow2 (- 42) < 2 ^ 53 * pow2 (- 42)"
    by (rule mult_strict_right_mono) simp
  also have "\<dots> < pow2 1024" by (simp add: pow2_def)
  finally have fin2: "\<bar>of_int (25 * b) :: rat\<bar> * pow2 (- 42) < pow2 1024" .
  have p: "(of_int b :: rat) * pow2 (- 40) * COST_PER_TIB_USD = of_int (25 * b) * pow2 (- 42)"
    by (simp add: COST_PER_TIB_USD_def pow2_def)
  have r2: "round_float (of_int b * pow2 (- 40) * COST_PER_TIB_USD) = Finite (of_int (25 * b) * pow2 (- 42))"
    unfolding p by (rule round_float_exact [OF n25 a25 _ fin2]) simp
  have "cost_usd b = Inr (Finite (of_int (25 * b) * pow2 (- 42)))"
    by (simp add: cost_usd_def div float_mul_const_def r2 del: of_int_mult)
  moreover have "(of_int b :: rat) / of_int BYTES_PER_TIB * COST_PER_TIB_USD = of_int (25 * b) * pow2 (- 42)"
    by (simp only: q p)
  ultimately show ?thesis by (simp only:)
qed


lemma estimate_query_cost_job:
  assumes "client_query bq (query_calls st) query (QueryJobConfig True False (MAX_BYTES_BILLED config)) = Inr job"
    and "cost_usd (or_zero (total_bytes_processed job)) = Inr c"
  shows "fst (estimate_query_cost config bq query st) = Inr (or_zero (total_bytes_processed job), c)"
  using assms by (simp add: estimate_query_cost_def call_query_def Let_def)

text \<open>
  Claim C9, as the code has it. \<^verbatim>\<open>estimate_query_cost\<close> computes the cost in binary64
  arithmetic. Whenever \<open>25 * |bytes|\<close> is below \<open>2^53\<close> (every estimate up to 320 TiB)
  no rounding occurs, and the returned cost is exactly the byte count divided by
  \<open>BYTES_PER_TIB\<close> times \<open>COST_PER_TIB_USD\<close>: linear in the byte count, exactly 0 for
  0 bytes and exactly the price per tebibyte for \<open>2^40\<close> bytes.
\<close>

theorem cost_estimate_formula:
  assumes dry: "client_query bq (query_calls st) query
                  (QueryJobConfig True False (MAX_BYTES_BILLED config)) = Inr job"
    and b: "or_zero (total_bytes_processed job) = b"
    and small: "25 * \<bar>b\<bar> < 2 ^ 53"
  shows "fst (estimate_query_cost config bq query st)
           = Inr (b, Finite (of_int b / of_int BYTES_PER_TIB * COST_PER_TIB_USD))
       \<and> (b = 0 \<longrightarrow> fst (estimate_query_cost config bq query st) = Inr (0, Finite 0))
       \<and> (b = 2 ^ 40 \<longrightarrow>
            fst (estimate_query_cost config bq query st) = Inr (2 ^ 40, Finite COST_PER_TIB_USD))"
proof -
  have main: "fst (estimate_query_cost config bq query st)
           = Inr (b, Finite (of_int b / of_int BYTES_PER_TIB * COST_PER_TIB_USD))"
    using estimate_query_cost_job [OF dry] cost_usd_exact [OF small] b by simp
  have tib: "(of_int (2 ^ 40) :: rat) / of_int BYTES_PER_TIB * COST_PER_TIB_USD = COST_PER_TIB_USD"
    by (simp add: BYTES_PER_TIB_def)
  have zero: "(of_int 0 :: rat) / of_int BYTES_PER_TIB * COST_PER_TIB_USD = 0"
    by simp
  have "b = 2 ^ 40 \<longrightarrow>
          fst (estimate_query_cost config bq query st) = Inr (2 ^ 40, Finite COST_PER_TIB_USD)"
    using main by (auto simp only: tib)
  moreover have "b = 0 \<longrightarrow> fst (estimate_query_cost config bq query st) = Inr (0, Finite 0)"
    using main by (auto simp only: zero)
  ultimately show ?thesis using main by blast
qed

text \<open>The formula at 0 bytes and at one tebibyte.\<close>

theorem cost_estimate_formula_witness:
  "fst (estimate_query_cost (example_config 100) (example_bigquery 0) ''SELECT 1'' initial_client_state)
     = Inr (0, Finite 0)
   \<and> fst (estimate_query_cost (example_config 100) (example_bigquery (2 ^ 40)) ''SELECT 1'' initial_client_state)
     = Inr (2 ^ 40, Finite (25 / 4))"
proof -
  have job: "client_query (example_bigquery b) (query_calls initial_client_state) ''SELECT 1''
          (QueryJobConfig True False (MAX_BYTES_BILLED (example_config 100)))
        = Inr \<lparr>total_bytes_processed = Some b, total_bytes_billed = Some b,
                to_dataframe = Inr example_frame\<rparr>" for b
    by (simp add: example_bigquery_def)
  have "fst (estimate_query_cost (example_config 100) (example_bigquery 0) ''SELECT 1'' initial_client_state)
     = Inr (0, Finite 0)"
    using cost_estimate_formula [OF job [of 0], of 0] by (simp add: or_zero_def)
  moreover have "fst (estimate_query_cost (example_config 100) (example_bigquery (2 ^ 40)) ''SELECT 1'' initial_client_state)
     = Inr (2 ^ 40, Finite (25 / 4))"
    using cost_estimate_formula [OF job [of "2 ^ 40"], of "2 ^ 40"]
    by (simp add: or_zero_def COST_PER_TIB_USD_def BYTES_PER_TIB_def)
  ultimately show ?thesis by simp
qed

text \<open>
  Beyond that range the product is rounded: for an estimate of \<open>2^49 + 1\<close> bytes
  (512 TiB and one byte) the returned cost is \<open>2^-42\<close> below the exact quotient times the
  price, so the cost is not exactly linear in the byte count.
\<close>

theorem cost_estimate_rounding_counterexample:
  "fst (estimate_query_cost (example_config 100) (example_bigquery (2 ^ 49 + 1)) ''SELECT 1''
          initial_client_state)
     = Inr (2 ^ 49 + 1, Finite (1759218604441603 / 549755813888))
   \<and> (1759218604441603 / 549755813888 :: rat)
     \<noteq> of_int (2 ^ 49 + 1) / of_int BYTES_PER_TIB * COST_PER_TIB_USD"
proof
  show "fst (estimate_query_cost (example_config 100) (example_bigquery (2 ^ 49 + 1)) ''SELECT 1''
          initial_client_state)
     = Inr (2 ^ 49 + 1, Finite (1759218604441603 / 549755813888))"
    by code_simp
  show "(1759218604441603 / 549755813888 :: rat)
     \<noteq> of_int (2 ^ 49 + 1) / of_int BYTES_PER_TIB * COST_PER_TIB_USD"
    by (simp add: BYTES_PER_TIB_def COST_PER_TIB_USD_def)
qed


lemma apply_customizations_calls:
  "apply_customizations bq items jc st = (jc', st') \<Longrightarrow> query_calls st' = query_calls st"
  by (induction bq items jc st rule: apply_customizations.induct)
     (auto simp: log_client_def split: if_splits)

lemma execution_failed_external: "fst (execution_failed (External err) st) \<noteq> Inl (QueryCostError m)"
  by (simp add: execution_failed_def)



section \<open>Properties of the cache key\<close>

lemma sort_key_fst_unique:
  assumes d1: "distinct (map fst p1)" and d2: "distinct (map fst p2)" and eq: "set p1 = set p2"
  shows "sort_key fst p1 = sort_key fst p2"
proof -
  let ?s1 = "sort_key fst p1" and ?s2 = "sort_key fst p2"
  have inj: "inj_on fst (set p1)" using d1 by (simp add: distinct_map)
  have "distinct (map fst ?s1)"
    using d1 by (simp add: distinct_map)
  moreover have "distinct (map fst ?s2)"
    using d2 by (simp add: distinct_map)
  moreover have "sorted (map fst ?s1)" "sorted (map fst ?s2)"
    by (rule sorted_sort_key)+
  moreover have "set (map fst ?s1) = set (map fst ?s2)"
    using eq by simp
  ultimately have "map fst ?s1 = map fst ?s2"
    by (intro sorted_distinct_set_unique)
  moreover have "inj_on fst (set ?s1 \<union> set ?s2)"
    using inj eq by simp
  ultimately show ?thesis by (simp add: inj_on_map_eq_map)
qed

lemma hex_digit_nibble: "d < 16 \<Longrightarrow> hex_digit d \<in> set ''0123456789abcdef''"
proof -
  assume "d < 16"
  then have "d = 0 \<or> d = 1 \<or> d = 2 \<or> d = 3 \<or> d = 4 \<or> d = 5 \<or> d = 6 \<or> d = 7 \<or> d = 8
      \<or> d = 9 \<or> d = 10 \<or> d = 11 \<or> d = 12 \<or> d = 13 \<or> d = 14 \<or> d = 15"
    by arith
  then show ?thesis
    by (elim disjE; simp only:; code_simp)
qed

lemma nibble_bound: "unat (w AND (0xF :: 32 word)) < 16"
proof -
  have "w AND 0xF \<le> 0xF" by (rule word_and_le1)
  then have "unat (w AND 0xF) \<le> unat (0xF :: 32 word)" by (simp only: word_le_nat_alt)
  then show ?thesis by simp
qed

lemma length_hex_word: "length (hex_word w) = 8"
  by (simp add: hex_word_def)

lemma set_hex_word: "set (hex_word w) \<subseteq> set ''0123456789abcdef''"
  unfolding hex_word_def using hex_digit_nibble [OF nibble_bound] by auto

lemma length_hexdigest: "length (hexdigest s) = 64"
  by (simp add: hexdigest_def length_hex_word split: prod.splits)

lemma set_hexdigest: "set (hexdigest s) \<subseteq> set ''0123456789abcdef''"
proof -
  have "set (hex_word a @ hex_word b @ hex_word c @ hex_word d @
             hex_word e @ hex_word f @ hex_word g @ hex_word h) \<subseteq> set ''0123456789abcdef''"
    for a b c d e f g h
    unfolding set_append using set_hex_word by blast
  then show ?thesis by (simp only: hexdigest_def split: prod.splits) blast
qed

lemma length_cache_key: "length (cache_key query params) = 16"
  by (simp add: cache_key_def Let_def length_hexdigest)

lemma set_cache_key: "set (cache_key query params) \<subseteq> set ''0123456789abcdef''"
proof -
  have "set (take 16 (hexdigest s)) \<subseteq> set ''0123456789abcdef''" for s
    using set_take_subset [of 16 "hexdigest s"] set_hexdigest [of s] by (rule subset_trans)
  then show ?thesis unfolding cache_key_def Let_def by blast
qed

lemma cache_key_cong:
  assumes "strip q1 = strip q2" "distinct (map fst p1)" "distinct (map fst p2)" "set p1 = set p2"
  shows "cache_key q1 (Some p1) = cache_key q2 (Some p2)"
proof -
  have s: "sort_key fst p1 = sort_key fst p2" using assms(2-4) by (rule sort_key_fst_unique)
  have e: "p1 = [] \<longleftrightarrow> p2 = []" using assms(4) by (metis set_empty)
  show ?thesis
    using assms(1) s e by (cases p1; cases p2) (simp_all add: cache_key_def Let_def)
qed

lemma strip_idem: "strip (strip s) = strip s"
proof -
  define t where "t = dropWhile is_space s"
  define u where "u = rev (dropWhile is_space (rev t))"
  have u1: "dropWhile is_space u = u"
  proof (cases "u = []")
    case True then show ?thesis by simp
  next
    case False
    then have tn: "t \<noteq> []" by (auto simp: u_def)
    have "\<not> is_space (hd t)" using tn unfolding t_def by (rule hd_dropWhile)
    moreover have "hd u = hd t"
    proof -
      obtain v where "rev t = takeWhile is_space (rev t) @ rev u"
        by (simp add: u_def)
      then have "t = u @ rev (takeWhile is_space (rev t))"
        by (metis rev_append rev_rev_ident)
      then show ?thesis using False by (metis hd_append2)
    qed
    ultimately show ?thesis by (simp add: dropWhile_eq_self_iff)
  qed
  have u2: "dropWhile is_space (rev u) = rev u"
    by (simp add: u_def)
  show ?thesis
    unfolding strip_def t_def [symmetric] u_def [symmetric] u1 u2 by simp
qed

text \<open>
  Claim C3. The key is a function of the trimmed query text and of the set of
  (name, value) pairs of the parameter dictionary: two query texts with the same trimmed
  text and two dictionaries with the same items, in any insertion order, get the same key.
  Every key is a string of 16 hexadecimal digits.
\<close>

theorem cache_key_deterministic:
  assumes "strip q1 = strip q2"
    and "distinct (map fst p1)" and "distinct (map fst p2)" and "set p1 = set p2"
  shows "fst (generate_cache_key q1 (Some p1)) = fst (generate_cache_key q2 (Some p2))
       \<and> length (fst (generate_cache_key q params)) = 16
       \<and> set (fst (generate_cache_key q params)) \<subseteq> set ''0123456789abcdef''"
  using cache_key_cong [OF assms] length_cache_key [of q params] set_cache_key [of q params]
  by (simp add: generate_cache_key_def Let_def)

text \<open>Surrounding blanks and the insertion order of two parameters do not matter.\<close>

theorem cache_key_deterministic_witness:
  "fst (generate_cache_key '' SELECT 1 '' (Some [(''limit'', VInt 100), (''offset'', VInt 0)]))
     = fst (generate_cache_key ''SELECT 1'' (Some [(''offset'', VInt 0), (''limit'', VInt 100)]))
   \<and> length (fst (generate_cache_key ''SELECT 1'' None)) = 16
   \<and> set (fst (generate_cache_key ''SELECT 1'' None)) \<subseteq> set ''0123456789abcdef''"
proof -
  have s: "strip '' SELECT 1 '' = strip ''SELECT 1''" by code_simp
  have d1: "distinct (map fst [(''limit'', VInt 100), (''offset'', VInt 0)])" by simp
  have d2: "distinct (map fst [(''offset'', VInt 0), (''limit'', VInt 100)])" by simp
  have e: "set [(''limit'', VInt 100), (''offset'', VInt 0)]
         = set [(''offset'', VInt 0), (''limit'', VInt 100)]" by auto
  show ?thesis
    using cache_key_deterministic [OF s d1 d2 e, of "''SELECT 1''" None] .
qed

section \<open>Properties of the query cache\<close>

lemma log_cache_simps [simp]:
  "files (log_cache lvl msg w) = files w"
  "compute_calls (log_cache lvl msg w) = compute_calls w"
  "compute_state (log_cache lvl msg w) = compute_state w"
  "cache_log (log_cache lvl msg w) = cache_log w @ [(lvl, msg)]"
  by (simp_all add: log_cache_def)

lemma load_cached_frame:
  "files (snd (load_cached qc pq env P force w)) = files w"
  "compute_calls (snd (load_cached qc pq env P force w)) = compute_calls w"
  "compute_state (snd (load_cached qc pq env P force w)) = compute_state w"
  by (simp_all add: load_cached_def Let_def split: prod.splits sum.splits)


lemma load_cached_miss:
  assumes "\<not> cache_hit qc pq env (files w) P force"
  shows "fst (load_cached qc pq env P force w) = None"
  using assms
  by (auto simp: cache_hit_def load_cached_def Let_def split: prod.splits sum.splits)


lemma load_cached_log:
  "\<exists>records. cache_log (snd (load_cached qc pq env P force w)) = cache_log w @ records"
  by (auto simp: load_cached_def Let_def split: prod.splits sum.splits)

lemma after_lookup_frame [simp]:
  "files (after_lookup qc pq env query params force w) = files w"
  "compute_calls (after_lookup qc pq env query params force w) = compute_calls w"
  "compute_state (after_lookup qc pq env query params force w) = compute_state w"
  by (simp_all add: after_lookup_def load_cached_frame)

lemma get_or_compute_unfold:
  "get_or_compute qc pq env query compute_fn params force w
     = (case load_cached qc pq env (cache_path_of qc query params) force
               (w\<lparr>cache_log := cache_log w @ snd (generate_cache_key query params)\<rparr>) of
          (Some cached_df, w1) \<Rightarrow> (Inr cached_df, w1)
        | (None, w1) \<Rightarrow>
            compute_and_cache pq env (cache_path_of qc query params) compute_fn force w1)"
  by (simp add: get_or_compute_def generate_cache_key_def cache_path_of_def Let_def
      split: prod.splits option.splits)


lemma get_or_compute_miss:
  assumes "\<not> cache_hit qc pq env (files w) (cache_path_of qc query params) force"
  shows "get_or_compute qc pq env query compute_fn params force w
           = compute_and_cache pq env (cache_path_of qc query params) compute_fn force
               (after_lookup qc pq env query params force w)"
proof -
  let ?w0 = "w\<lparr>cache_log := cache_log w @ snd (generate_cache_key query params)\<rparr>"
  let ?P = "cache_path_of qc query params"
  from assms have "\<not> cache_hit qc pq env (files ?w0) ?P force" by simp
  from load_cached_miss [OF this]
  have n: "fst (load_cached qc pq env ?P force ?w0) = None" .
  obtain r w1 where l: "load_cached qc pq env ?P force ?w0 = (r, w1)"
    by (cases "load_cached qc pq env ?P force ?w0")
  with n have r: "r = None" by simp
  show ?thesis
    unfolding get_or_compute_unfold after_lookup_def l r by simp
qed

lemma compute_and_cache_calls:
  "compute_calls (snd (compute_and_cache pq env P compute_fn force w)) = compute_calls w + 1"
  by (simp add: compute_and_cache_def Let_def compute_failed_def cache_result_def
      split: prod.splits sum.splits pyobj.splits option.splits)


lemma compute_and_cache_None_parts:
  assumes "compute_fn (compute_state w) = (Inr PyNone, s)"
  shows "fst (compute_and_cache pq env P compute_fn force w) = Inr pd_DataFrame"
    and "files (snd (compute_and_cache pq env P compute_fn force w)) = files w"
    and "(WARNING, ''Compute function returned None'')
           \<in> set (cache_log (snd (compute_and_cache pq env P compute_fn force w)))"
  using assms by (simp_all add: compute_and_cache_def Let_def)

lemma compute_and_cache_Other:
  assumes "compute_fn (compute_state w) = (Inr (PyOther ty), s)"
  shows "fst (compute_and_cache pq env P compute_fn force w)
           = Inl (TypeError (''Compute function must return a pandas DataFrame, '' @ ''got '' @ ty))"
    and "files (snd (compute_and_cache pq env P compute_fn force w)) = files w"
  using assms by (simp_all add: compute_and_cache_def Let_def compute_failed_def)

lemma compute_and_cache_empty:
  assumes "compute_fn (compute_state w) = (Inr (PyDataFrame df), s)" and "df_empty df"
  shows "fst (compute_and_cache pq env P compute_fn force w) = Inr df"
    and "files (snd (compute_and_cache pq env P compute_fn force w)) = files w"
  using assms by (simp_all add: compute_and_cache_def Let_def)

lemma cache_result_frame [simp]:
  "compute_calls (cache_result pq env df P w) = compute_calls w"
  "compute_state (cache_result pq env df P w) = compute_state w"
  "files (cache_result pq env df P w) = snd (to_parquet pq env df P (files w))"
  by (simp_all add: cache_result_def Let_def split: prod.splits sum.splits option.splits)

lemma compute_and_cache_frame:
  assumes "compute_fn (compute_state w) = (Inr (PyDataFrame df), s)" and "\<not> df_empty df"
  shows "fst (compute_and_cache pq env P compute_fn force w) = Inr df"
    and "files (snd (compute_and_cache pq env P compute_fn force w))
           = snd (to_parquet pq env df P (files w))"
  using assms by (simp_all add: compute_and_cache_def Let_def)

lemma cache_result_error_logged:
  assumes "write_result env = WriteFailed err lo"
  shows "(ERROR, ''Failed to cache result: '' @ exn_str (External err))
           \<in> set (cache_log (cache_result pq env df P w))"
  using assms by (cases lo) (simp_all add: cache_result_def to_parquet_def)

lemma compute_and_cache_write_failed_logged:
  assumes "compute_fn (compute_state w) = (Inr (PyDataFrame df), s)" and "\<not> df_empty df"
    and "write_result env = WriteFailed err lo"
  shows "(ERROR, ''Failed to cache result: '' @ exn_str (External err))
           \<in> set (cache_log (snd (compute_and_cache pq env P compute_fn force w)))"
  using assms(1,2)
  by (simp add: compute_and_cache_def Let_def cache_result_error_logged [OF assms(3)]
      del: append.simps)

lemma to_parquet_other:
  "p \<noteq> P \<Longrightarrow> snd (to_parquet pq env df P fs) p = fs p"
  by (simp add: to_parquet_def split: write_outcome.splits leftover.splits)

lemma compute_and_cache_other:
  assumes "p \<noteq> P"
  shows "files (snd (compute_and_cache pq env P compute_fn force w)) p = files w p"
  using assms
  by (simp add: compute_and_cache_def Let_def compute_failed_def to_parquet_other
      split: prod.splits sum.splits pyobj.splits)




lemma to_parquet_written:
  "write_result env = Written \<Longrightarrow>
   snd (to_parquet pq env df P fs)
     = fs(P \<mapsto> \<lparr>st_mtime = write_stamp env, content = to_parquet_bytes pq df\<rparr>)"
  by (simp add: to_parquet_def)

lemma to_parquet_failed:
  "write_result env = WriteFailed err lo \<Longrightarrow>
   snd (to_parquet pq env df P fs) P
     = (case lo of Untouched \<Rightarrow> fs P | Removed \<Rightarrow> None
        | Partial bytes \<Rightarrow> Some \<lparr>st_mtime = write_stamp env, content = bytes\<rparr>)"
  by (simp add: to_parquet_def split: leftover.splits)

text \<open>Facts about the example instances.\<close>

lemma empty_world_miss:
  "\<not> cache_hit qc pq env (files empty_world) P force"
  by (simp add: cache_hit_def empty_world_def is_cache_valid_def)

lemma returning_empty_world:
  "returning v (compute_state empty_world) = (Inr v, 1)"
  by (simp add: returning_def empty_world_def)

lemma returning_state:
  "returning v (compute_state (w :: nat world)) = (Inr v, compute_state w + 1)"
  by (simp add: returning_def)

lemma example_frame_nonempty: "\<not> df_empty example_frame"
  by (simp add: df_empty_def example_frame_def)




lemma reset_index_labelled_frame: "reset_index labelled_frame = example_frame"
  by (simp add: reset_index_def example_frame_def labelled_frame_def)


















text \<open>
  Claim C6, as the code has it. When the compute function is invoked and returns a value
  that is neither a DataFrame nor \<^verbatim>\<open>None\<close>, \<^verbatim>\<open>get_or_compute\<close> raises a
  \<^verbatim>\<open>TypeError\<close> whose message names the type of the value; nothing is written.
\<close>

theorem non_tabular_type_error:
  assumes reached: "\<not> cache_hit qc pq env (files w) (cache_path_of qc query params) force"
    and comp: "compute_fn (compute_state w) = (Inr v, s)"
    and nontabular: "\<not> is_DataFrame v"
    and notnone: "v \<noteq> PyNone"
  shows "(\<exists>type_text. v = PyOther type_text
            \<and> fst (get_or_compute qc pq env query compute_fn params force w)
                = Inl (TypeError (''Compute function must return a pandas DataFrame, '' @
                                   ''got '' @ type_text)))
       \<and> files (snd (get_or_compute qc pq env query compute_fn params force w)) = files w"
proof -
  let ?al = "after_lookup qc pq env query params force w"
  from nontabular notnone obtain type_text where v: "v = PyOther type_text"
    by (cases v) (simp_all add: is_DataFrame_def)
  have c: "compute_fn (compute_state ?al) = (Inr (PyOther type_text), s)"
    using comp v by simp
  have goc: "get_or_compute qc pq env query compute_fn params force w
      = compute_and_cache pq env (cache_path_of qc query params) compute_fn force ?al"
    using reached by (rule get_or_compute_miss)
  show ?thesis
    unfolding goc
    using compute_and_cache_Other [where compute_fn = compute_fn and w = "?al", OF c] v by simp
qed

text \<open>A compute function that returns a string.\<close>

theorem non_tabular_type_error_witness:
  "fst (get_or_compute example_cache example_parquet (example_env 1000) ''SELECT 1''
          (returning (PyOther ''<class 'str'>'')) None False empty_world)
     = Inl (TypeError ''Compute function must return a pandas DataFrame, got <class 'str'>'')"
proof -
  have nt: "\<not> is_DataFrame (PyOther ''<class 'str'>'')" by (simp add: is_DataFrame_def)
  have nn: "PyOther ''<class 'str'>'' \<noteq> PyNone" by simp
  note inst = non_tabular_type_error [where qc = example_cache and pq = example_parquet
        and env = "example_env 1000" and query = "''SELECT 1''" and params = None
        and force = False and w = empty_world
        and compute_fn = "returning (PyOther ''<class 'str'>'')"
        and v = "PyOther ''<class 'str'>''" and s = 1]
  from inst [OF empty_world_miss returning_empty_world nt nn]
  show ?thesis by simp
qed

text \<open>
  \<^verbatim>\<open>None\<close> is not a DataFrame either, and for it no \<^verbatim>\<open>TypeError\<close> is raised: the
  call returns an empty DataFrame.
\<close>

theorem none_is_not_a_type_error_counterexample:
  "\<not> is_DataFrame PyNone
   \<and> fst (get_or_compute example_cache example_parquet (example_env 1000) ''SELECT 1''
          (returning PyNone) None False empty_world) = Inr pd_DataFrame"
proof -
  have goc: "get_or_compute example_cache example_parquet (example_env 1000) ''SELECT 1''
          (returning PyNone) None False empty_world
      = compute_and_cache example_parquet (example_env 1000)
          (cache_path_of example_cache ''SELECT 1'' None) (returning PyNone) False
          (after_lookup example_cache example_parquet (example_env 1000) ''SELECT 1'' None False
             empty_world)"
    using empty_world_miss by (rule get_or_compute_miss)
  have c: "returning PyNone (compute_state (after_lookup example_cache example_parquet
             (example_env 1000) ''SELECT 1'' None False empty_world)) = (Inr PyNone, 1)"
    using returning_empty_world [of PyNone] by simp
  show ?thesis
    unfolding goc
    using compute_and_cache_None_parts(1) [where compute_fn = "returning PyNone"
        and w = "after_lookup example_cache example_parquet (example_env 1000) ''SELECT 1'' None
                   False empty_world", OF c]
    by (simp add: is_DataFrame_def)
qed

text \<open>
  Claim C10. When the compute function is invoked and returns \<^verbatim>\<open>None\<close>,
  \<^verbatim>\<open>get_or_compute\<close> does not raise: it logs a warning, returns an empty DataFrame and
  writes no file.
\<close>

theorem none_result_handled:
  assumes reached: "\<not> cache_hit qc pq env (files w) (cache_path_of qc query params) force"
    and comp: "compute_fn (compute_state w) = (Inr PyNone, s)"
  shows "fst (get_or_compute qc pq env query compute_fn params force w) = Inr pd_DataFrame
       \<and> df_empty pd_DataFrame
       \<and> files (snd (get_or_compute qc pq env query compute_fn params force w)) = files w
       \<and> (WARNING, ''Compute function returned None'')
            \<in> set (cache_log (snd (get_or_compute qc pq env query compute_fn params force w)))"
proof -
  let ?al = "after_lookup qc pq env query params force w"
  have c: "compute_fn (compute_state ?al) = (Inr PyNone, s)" using comp by simp
  have goc: "get_or_compute qc pq env query compute_fn params force w
      = compute_and_cache pq env (cache_path_of qc query params) compute_fn force ?al"
    using reached by (rule get_or_compute_miss)
  have e: "df_empty pd_DataFrame" by (simp add: df_empty_def pd_DataFrame_def)
  show ?thesis
    unfolding goc
    using compute_and_cache_None_parts [where compute_fn = compute_fn and w = "?al", OF c] e
    by simp
qed

text \<open>A compute function that returns \<^verbatim>\<open>None\<close>, on an empty store.\<close>

theorem none_result_handled_witness:
  "fst (get_or_compute example_cache example_parquet (example_env 1000) ''SELECT 1''
          (returning PyNone) None False empty_world) = Inr \<lparr>n_rows = 0, index_labels = None, columns = []\<rparr>
   \<and> files (snd (get_or_compute example_cache example_parquet (example_env 1000) ''SELECT 1''
          (returning PyNone) None False empty_world)) = Map.empty"
proof -
  have f: "files empty_world = Map.empty" by (simp add: empty_world_def)
  note inst = none_result_handled [where qc = example_cache and pq = example_parquet
        and env = "example_env 1000" and query = "''SELECT 1''" and params = None
        and force = False and w = empty_world and compute_fn = "returning PyNone" and s = 1]
  from inst [OF empty_world_miss returning_empty_world]
  show ?thesis unfolding f by (simp add: pd_DataFrame_def)
qed

text \<open>
  Claim C7. When the compute function is invoked and returns an empty DataFrame,
  \<^verbatim>\<open>get_or_compute\<close> returns that frame and leaves the file system as it was: no file
  is added. A second non-forced call that, on this unchanged store, again finds no fresh
  readable entry (as an immediate repetition of a non-forced call does, and as every call
  does when the store has no file for the key) invokes the compute function again.
\<close>

theorem empty_result_not_cached:
  assumes reached: "\<not> cache_hit qc pq env (files w) (cache_path_of qc query params) force"
    and comp: "compute_fn (compute_state w) = (Inr (PyDataFrame df), s)"
    and empty: "df_empty df"
  shows "fst (get_or_compute qc pq env query compute_fn params force w) = Inr df
       \<and> files (snd (get_or_compute qc pq env query compute_fn params force w)) = files w
       \<and> compute_calls (snd (get_or_compute qc pq env query compute_fn params force w))
           = compute_calls w + 1
       \<and> (\<forall>env2. \<not> cache_hit qc pq env2 (files w) (cache_path_of qc query params) False \<longrightarrow>
             compute_calls (snd (get_or_compute qc pq env2 query compute_fn params False
                (snd (get_or_compute qc pq env query compute_fn params force w))))
               = compute_calls w + 2)"
proof -
  let ?P = "cache_path_of qc query params"
  let ?al = "after_lookup qc pq env query params force w"
  define w1 where "w1 = snd (get_or_compute qc pq env query compute_fn params force w)"
  have c: "compute_fn (compute_state ?al) = (Inr (PyDataFrame df), s)" using comp by simp
  have goc: "get_or_compute qc pq env query compute_fn params force w
      = compute_and_cache pq env ?P compute_fn force ?al"
    using reached by (rule get_or_compute_miss)
  note parts = compute_and_cache_empty [where compute_fn = compute_fn and w = "?al", OF c empty]
  have r: "fst (get_or_compute qc pq env query compute_fn params force w) = Inr df"
    unfolding goc using parts(1) .
  have f: "files w1 = files w"
    unfolding w1_def goc using parts(2) by simp
  have n: "compute_calls w1 = compute_calls w + 1"
    unfolding w1_def goc by (simp add: compute_and_cache_calls)
  have again: "compute_calls (snd (get_or_compute qc pq env2 query compute_fn params False w1))
               = compute_calls w + 2"
    if m: "\<not> cache_hit qc pq env2 (files w) ?P False" for env2
  proof -
    have "\<not> cache_hit qc pq env2 (files w1) ?P False" unfolding f by (rule m)
    then have "get_or_compute qc pq env2 query compute_fn params False w1
      = compute_and_cache pq env2 ?P compute_fn False
          (after_lookup qc pq env2 query params False w1)"
      by (rule get_or_compute_miss)
    then show ?thesis by (simp add: compute_and_cache_calls n)
  qed
  show ?thesis using r f n again unfolding w1_def by blast
qed

text \<open>Two immediate calls on an empty store with a compute function returning an empty frame.\<close>

theorem empty_result_not_cached_witness:
  "fst (get_or_compute example_cache example_parquet (example_env 1000) ''SELECT 1''
          (returning (PyDataFrame pd_DataFrame)) None False empty_world) = Inr pd_DataFrame
   \<and> files (snd (get_or_compute example_cache example_parquet (example_env 1000) ''SELECT 1''
          (returning (PyDataFrame pd_DataFrame)) None False empty_world)) = Map.empty
   \<and> compute_calls (snd (get_or_compute example_cache example_parquet (example_env 1000) ''SELECT 1''
          (returning (PyDataFrame pd_DataFrame)) None False
          (snd (get_or_compute example_cache example_parquet (example_env 1000) ''SELECT 1''
             (returning (PyDataFrame pd_DataFrame)) None False empty_world)))) = 2"
proof -
  have e: "df_empty pd_DataFrame" by (simp add: df_empty_def pd_DataFrame_def)
  have f: "files empty_world = Map.empty" by (simp add: empty_world_def)
  have calls0: "compute_calls empty_world = 0" by (simp add: empty_world_def)
  note inst = empty_result_not_cached [where qc = example_cache and pq = example_parquet
        and env = "example_env 1000" and query = "''SELECT 1''" and params = None
        and force = False and w = empty_world
        and compute_fn = "returning (PyDataFrame pd_DataFrame)" and df = pd_DataFrame and s = 1]
  note facts = inst [OF empty_world_miss returning_empty_world e]
  from facts [THEN conjunct2, THEN conjunct2, THEN conjunct2, rule_format,
      of "example_env 1000"] empty_world_miss
  have "compute_calls (snd (get_or_compute example_cache example_parquet (example_env 1000) ''SELECT 1''
          (returning (PyDataFrame pd_DataFrame)) None False
          (snd (get_or_compute example_cache example_parquet (example_env 1000) ''SELECT 1''
             (returning (PyDataFrame pd_DataFrame)) None False empty_world)))) = 2"
    unfolding calls0 by simp
  with facts [THEN conjunct1] facts [THEN conjunct2, THEN conjunct1]
  show ?thesis unfolding f by blast
qed

text \<open>
  Claim C8, as the code has it. \<^verbatim>\<open>to_parquet\<close> is called on the final path, inside a
  \<^verbatim>\<open>try\<close> that logs and swallows its failure. A write that succeeds leaves, for the
  key, the serialisation of the frame; a write that fails is logged and leaves for the key
  whatever the interrupted write left (the previous file, no file, or partial bytes); in
  every case the frame is returned and the files of the other keys are untouched.
\<close>

theorem cache_write_outcomes:
  assumes reached: "\<not> cache_hit qc pq env (files w) (cache_path_of qc query params) force"
    and comp: "compute_fn (compute_state w) = (Inr (PyDataFrame df), s)"
    and nonempty: "\<not> df_empty df"
  shows "fst (get_or_compute qc pq env query compute_fn params force w) = Inr df
       \<and> (write_result env = Written \<longrightarrow>
            files (snd (get_or_compute qc pq env query compute_fn params force w))
              = (files w)(cache_path_of qc query params \<mapsto>
                   \<lparr>st_mtime = write_stamp env, content = to_parquet_bytes pq df\<rparr>))
       \<and> (\<forall>err lo. write_result env = WriteFailed err lo \<longrightarrow>
            (ERROR, ''Failed to cache result: '' @ exn_str (External err))
              \<in> set (cache_log (snd (get_or_compute qc pq env query compute_fn params force w)))
          \<and> files (snd (get_or_compute qc pq env query compute_fn params force w))
                (cache_path_of qc query params)
              = (case lo of
                   Untouched \<Rightarrow> files w (cache_path_of qc query params)
                 | Removed \<Rightarrow> None
                 | Partial bytes \<Rightarrow> Some \<lparr>st_mtime = write_stamp env, content = bytes\<rparr>))
       \<and> (\<forall>p. p \<noteq> cache_path_of qc query params \<longrightarrow>
            files (snd (get_or_compute qc pq env query compute_fn params force w)) p = files w p)"
proof -
  let ?P = "cache_path_of qc query params"
  let ?al = "after_lookup qc pq env query params force w"
  let ?g = "get_or_compute qc pq env query compute_fn params force w"
  have c: "compute_fn (compute_state ?al) = (Inr (PyDataFrame df), s)" using comp by simp
  have goc: "?g = compute_and_cache pq env ?P compute_fn force ?al"
    using reached by (rule get_or_compute_miss)
  note parts = compute_and_cache_frame [where compute_fn = compute_fn and w = "?al", OF c nonempty]
  have r: "fst ?g = Inr df" unfolding goc using parts(1) .
  have fs: "files (snd ?g) = snd (to_parquet pq env df ?P (files w))"
    unfolding goc using parts(2) by simp
  have ok: "files (snd ?g) = (files w)(?P \<mapsto> \<lparr>st_mtime = write_stamp env,
              content = to_parquet_bytes pq df\<rparr>)"
    if "write_result env = Written"
    unfolding fs using that by (rule to_parquet_written)
  have failed: "(ERROR, ''Failed to cache result: '' @ exn_str (External err))
              \<in> set (cache_log (snd ?g))
          \<and> files (snd ?g) ?P
              = (case lo of
                   Untouched \<Rightarrow> files w ?P
                 | Removed \<Rightarrow> None
                 | Partial bytes \<Rightarrow> Some \<lparr>st_mtime = write_stamp env, content = bytes\<rparr>)"
    if wf: "write_result env = WriteFailed err lo" for err lo
  proof
    show "(ERROR, ''Failed to cache result: '' @ exn_str (External err))
              \<in> set (cache_log (snd ?g))"
      unfolding goc
      using compute_and_cache_write_failed_logged [where compute_fn = compute_fn and w = "?al",
          OF c nonempty wf] .
    show "files (snd ?g) ?P
              = (case lo of
                   Untouched \<Rightarrow> files w ?P
                 | Removed \<Rightarrow> None
                 | Partial bytes \<Rightarrow> Some \<lparr>st_mtime = write_stamp env, content = bytes\<rparr>)"
      unfolding fs using wf by (rule to_parquet_failed)
  qed
  have other: "files (snd ?g) p = files w p" if "p \<noteq> ?P" for p
    unfolding fs using that by (rule to_parquet_other)
  show ?thesis using r ok failed other by blast
qed

text \<open>
  On an empty store: a successful write creates the entry; a write that fails before the
  file is opened creates nothing.
\<close>

theorem cache_write_outcomes_witness:
  "fst (get_or_compute example_cache example_parquet (example_env 1000) ''SELECT 1''
          (returning (PyDataFrame example_frame)) None False empty_world) = Inr example_frame
   \<and> files (snd (get_or_compute example_cache example_parquet (example_env 1000) ''SELECT 1''
          (returning (PyDataFrame example_frame)) None False empty_world))
       = [cache_path_of example_cache ''SELECT 1'' None \<mapsto>
            \<lparr>st_mtime = 1000, content = ''PAR1 id 1 2 3 PAR1''\<rparr>]
   \<and> files (snd (get_or_compute example_cache example_parquet (disk_full_env 1000 Untouched)
          ''SELECT 1'' (returning (PyDataFrame example_frame)) None False empty_world))
         (cache_path_of example_cache ''SELECT 1'' None) = None"
proof -
  have written: "write_result (example_env 1000) = Written" by (simp add: example_env_def)
  have stamp: "write_stamp (example_env 1000) = 1000" by (simp add: example_env_def)
  have bytes: "to_parquet_bytes example_parquet example_frame = ''PAR1 id 1 2 3 PAR1''"
    by (simp add: example_parquet_def)
  have f: "files empty_world = Map.empty" by (simp add: empty_world_def)
  have failed: "write_result (disk_full_env 1000 Untouched)
      = WriteFailed (OtherError ''OSError'' ''No space left on device'') Untouched"
    by (simp add: disk_full_env_def)
  note ok = cache_write_outcomes [where qc = example_cache and pq = example_parquet
        and env = "example_env 1000" and query = "''SELECT 1''" and params = None
        and force = False and w = empty_world
        and compute_fn = "returning (PyDataFrame example_frame)" and df = example_frame and s = 1,
      OF empty_world_miss returning_empty_world example_frame_nonempty]
  note bad = cache_write_outcomes [where qc = example_cache and pq = example_parquet
        and env = "disk_full_env 1000 Untouched" and query = "''SELECT 1''" and params = None
        and force = False and w = empty_world
        and compute_fn = "returning (PyDataFrame example_frame)" and df = example_frame and s = 1,
      OF empty_world_miss returning_empty_world example_frame_nonempty]
  have "files (snd (get_or_compute example_cache example_parquet (example_env 1000) ''SELECT 1''
          (returning (PyDataFrame example_frame)) None False empty_world))
       = [cache_path_of example_cache ''SELECT 1'' None \<mapsto>
            \<lparr>st_mtime = 1000, content = ''PAR1 id 1 2 3 PAR1''\<rparr>]"
    using ok [THEN conjunct2, THEN conjunct1] written unfolding stamp bytes f by blast
  moreover have "files (snd (get_or_compute example_cache example_parquet (disk_full_env 1000 Untouched)
          ''SELECT 1'' (returning (PyDataFrame example_frame)) None False empty_world))
         (cache_path_of example_cache ''SELECT 1'' None) = None"
    using bad [THEN conjunct2, THEN conjunct2, THEN conjunct1, rule_format, OF failed,
        THEN conjunct2]
    unfolding f by simp
  ultimately show ?thesis using ok [THEN conjunct1] by blast
qed

text \<open>A forced refresh on a store that holds a valid entry, with a write that fails.\<close>

lemma forced_miss: "\<not> cache_hit qc pq env fs P True"
  by (simp add: cache_hit_def)

lemma forced_write_failed:
  assumes "write_result env = WriteFailed err lo"
  shows "files (snd (get_or_compute example_cache example_parquet env ''SELECT 1''
            (returning (PyDataFrame example_frame)) None True (w :: nat world))) example_path
       = (case lo of Untouched \<Rightarrow> files w example_path | Removed \<Rightarrow> None
          | Partial bytes \<Rightarrow> Some \<lparr>st_mtime = write_stamp env, content = bytes\<rparr>)"
proof -
  let ?al = "after_lookup example_cache example_parquet env ''SELECT 1'' None True w"
  have goc: "get_or_compute example_cache example_parquet env ''SELECT 1''
            (returning (PyDataFrame example_frame)) None True w
      = compute_and_cache example_parquet env example_path
          (returning (PyDataFrame example_frame)) True ?al"
    unfolding example_path_def using forced_miss by (rule get_or_compute_miss)
  have c: "returning (PyDataFrame example_frame) (compute_state ?al)
             = (Inr (PyDataFrame example_frame), compute_state ?al + 1)"
    by (rule returning_state)
  have "files (snd (compute_and_cache example_parquet env example_path
          (returning (PyDataFrame example_frame)) True ?al))
      = snd (to_parquet example_parquet env example_frame example_path (files ?al))"
    using c example_frame_nonempty by (rule compute_and_cache_frame(2))
  then show ?thesis
    unfolding goc by (simp add: to_parquet_failed [OF assms])
qed

text \<open>
  The store holds a valid entry for the query. A forced refresh computes a frame, and the
  write fails on a full disk. If it leaves the bytes written so far, the file of the key is
  no longer the previous one and does not read as a frame; if it removes the file, the
  previous entry is gone. Either way the previous file is not left untouched.
\<close>

theorem write_not_atomic_counterexample:
  "files cached_world example_path
     = Some \<lparr>st_mtime = 1000, content = ''PAR1 id 1 2 3 PAR1''\<rparr>
   \<and> files (snd (get_or_compute example_cache example_parquet
                (disk_full_env 2000 (Partial ''PAR1 id'')) ''SELECT 1''
                (returning (PyDataFrame example_frame)) None True cached_world)) example_path
     = Some \<lparr>st_mtime = 2000, content = ''PAR1 id''\<rparr>
   \<and> read_parquet_bytes example_parquet ''PAR1 id''
     = Inl (OtherError ''ArrowInvalid'' ''Parquet magic bytes not found in footer'')
   \<and> files (snd (get_or_compute example_cache example_parquet
                (disk_full_env 2000 Removed) ''SELECT 1''
                (returning (PyDataFrame example_frame)) None True cached_world)) example_path
     = None"
proof -
  have w1: "write_result (disk_full_env 2000 (Partial ''PAR1 id''))
      = WriteFailed (OtherError ''OSError'' ''No space left on device'') (Partial ''PAR1 id'')"
    by (simp add: disk_full_env_def)
  have w2: "write_result (disk_full_env 2000 Removed)
      = WriteFailed (OtherError ''OSError'' ''No space left on device'') Removed"
    by (simp add: disk_full_env_def)
  have s: "write_stamp (disk_full_env 2000 (Partial ''PAR1 id'')) = 2000"
    by (simp add: disk_full_env_def)
  have "files cached_world example_path
     = Some \<lparr>st_mtime = 1000, content = ''PAR1 id 1 2 3 PAR1''\<rparr>"
    by (simp add: cached_world_def empty_world_def)
  moreover have "read_parquet_bytes example_parquet ''PAR1 id''
     = Inl (OtherError ''ArrowInvalid'' ''Parquet magic bytes not found in footer'')"
    by (simp add: example_parquet_def)
  ultimately show ?thesis
    using forced_write_failed [OF w1, of cached_world] forced_write_failed [OF w2, of cached_world]
    unfolding s by simp
qed

end
